theory Spec2Isabelle
  imports Complex_Main "HOL-Library.Word"
begin

section \<open>The gas-price oracle: data model\<close>

text \<open>
  The development follows \<^verbatim>\<open>gas-oracle/oracle/gas_price_oracle.go\<close>. Calls that leave the
  file (RPC queries, contract bindings, the gas pricer) are modelled by the value they
  return; every error return and every panic of the file is a branch of the model.
\<close>

subsection \<open>Errors and panics\<close>

text \<open>
  The five sentinel errors of the \<^verbatim>\<open>var\<close> block, \<^verbatim>\<open>fmt.Errorf\<close> with a \<^verbatim>\<open>%w\<close> verb (format
  string, the integer arguments, the wrapped error), \<^verbatim>\<open>fmt.Errorf\<close> without one, and an
  error handed back by an external call.
\<close>

datatype error =
    errInvalidSigningKey
  | errNoChainID
  | errNoPrivateKey
  | errWrongChainID
  | errNoBaseFee
  | Errorf_w string "int list" error
  | Errorf string
  | External string

text \<open>\<^verbatim>\<open>errors.Is\<close>: the target is found along the chain of wrapped errors.\<close>

fun errors_Is :: "error \<Rightarrow> error \<Rightarrow> bool" where
  "errors_Is (Errorf_w f args e) target = (Errorf_w f args e = target \<or> errors_Is e target)"
| "errors_Is e target = (e = target)"

datatype panic =
    PanicError error
  | CloseOfClosedChannel
  | NilDereference
  | NonPositiveTickerInterval

subsection \<open>ensureConnection\<close>

text \<open>
  \<^verbatim>\<open>
  func ensureConnection(client *ethclient.Client) error {
      t := time.NewTicker(1 * time.Second)
      retries := 0
      defer t.Stop()
      for ; true; <-t.C {
          _, err := client.ChainID(context.Background())
          if err == nil {
              break
          } else {
              retries += 1
              if retries > 90 {
                  return err
              }
          }
      }
      return nil
  }
  \<close>
  The client is the sequence of answers it gives to successive \<^verbatim>\<open>ChainID\<close> queries: answer
  number \<open>k\<close> (from 0) is \<open>chainID k\<close>. The result records the returned error, the number
  of queries made and the number of times the loop's post statement \<^verbatim>\<open><-t.C\<close> waited for
  the ticker.
\<close>

type_synonym client = "nat \<Rightarrow> error + int"

record conn_result =
  conn_err :: "error option"
  queries :: nat
  tick_waits :: nat

definition ensureConnection_period_seconds :: nat where
  "ensureConnection_period_seconds = 1"

function ensureConnection_loop :: "client \<Rightarrow> nat \<Rightarrow> nat \<Rightarrow> nat \<Rightarrow> conn_result" where
  "ensureConnection_loop chainID asked retries waits =
     (case chainID asked of
        Inr _ \<Rightarrow> \<lparr>conn_err = None, queries = asked + 1, tick_waits = waits\<rparr>
      | Inl err \<Rightarrow>
          (if retries + 1 > 90
           then \<lparr>conn_err = Some err, queries = asked + 1, tick_waits = waits\<rparr>
           else ensureConnection_loop chainID (asked + 1) (retries + 1) (waits + 1)))"
  by pat_completeness auto
termination
  by (relation "measure (\<lambda>(c, a, r, w). 91 - r)") auto

definition ensureConnection :: "client \<Rightarrow> conn_result" where
  "ensureConnection chainID = ensureConnection_loop chainID 0 0 0"

subsection \<open>Config and GasPriceOracle\<close>

text \<open>
  \<^verbatim>\<open>Config\<close> is declared outside this file; the record has the fields this file reads to
  decide something. (Fields that are only handed on to an external constructor, such as
  the URLs, the contract addresses and the pricing parameters, are represented by that
  constructor's result in \<open>backends\<close> below.) An address is the number its 20 bytes
  denote. A private key is identified by the address \<^verbatim>\<open>crypto.PubkeyToAddress\<close> derives
  from its public key, \<^verbatim>\<open>HsmAddress\<close> by the address \<^verbatim>\<open>common.HexToAddress\<close> parses from
  it; \<open>None\<close> is the nil pointer. The two chain ids of \<^verbatim>\<open>Config\<close> carry the prefix
  \<open>cfg_\<close> because \<^verbatim>\<open>GasPriceOracle\<close> has fields of the same names.
\<close>

type_synonym address = nat
type_synonym handle = nat

record Config =
  cfg_l1ChainID :: "int option"
  cfg_l2ChainID :: "int option"
  EnableHsm :: bool
  HsmAddress :: address
  privateKey :: "address option"
  enableL1BaseFee :: bool
  enableL2GasPrice :: bool
  enableDaFee :: bool
  epochLengthSeconds :: nat
  l1BaseFeeEpochLengthSeconds :: nat
  daFeeEpochLengthSeconds :: nat

text \<open>
  A context is \<^verbatim>\<open>context.Background()\<close>, whose \<^verbatim>\<open>Done()\<close> channel is nil and never ready, or
  a cancellable one, with the flag saying whether it has been cancelled. A
  \<^verbatim>\<open>chan struct{}\<close> on which nothing is ever sent is open or closed.
\<close>

datatype Context = Background | WithCancel bool

fun Done_ready :: "Context \<Rightarrow> bool" where
  "Done_ready Background = False"
| "Done_ready (WithCancel cancelled) = cancelled"

datatype chan = Open | Closed

record GasPriceOracle =
  l1ChainID :: int
  l2ChainID :: int
  ctx :: Context
  stop :: chan
  contract :: handle
  l2Backend :: handle
  l1Backend :: handle
  daBackend :: "handle option"
  gasPriceUpdater :: handle
  config :: Config

text \<open>What the on-chain \<^verbatim>\<open>BVM_GasPriceOracle\<close> contract answers at the moment of a call.\<close>

record contract_view =
  GasPrice :: "error + nat"
  Owner :: "error + address"

datatype 'a outcome = Ok 'a | Fail error | Panicked panic

subsection \<open>Start, Stop, Wait\<close>

datatype goroutine = go_BaseFeeLoop | go_DaFeeLoop | go_Loop

text \<open>
  \<^verbatim>\<open>Start\<close> returns an error, or \<^verbatim>\<open>nil\<close> after its \<^verbatim>\<open>go\<close> statements; the model returns the
  error or the goroutines launched, in the order of the \<^verbatim>\<open>go\<close> statements. The address is
  computed for the log line only; the gauge update and the log lines are not
  modelled.
\<close>

definition Start :: "GasPriceOracle \<Rightarrow> contract_view \<Rightarrow> error + goroutine list" where
  "Start g c =
     (if cfg_l1ChainID (config g) = None then Inl (Errorf_w ''layer-one: %w'' [] errNoChainID)
      else if cfg_l2ChainID (config g) = None
        then Inl (Errorf_w ''layer-two: %w'' [] errNoChainID)
      else if \<not> EnableHsm (config g) \<and> privateKey (config g) = None then Inl errNoPrivateKey
      else case GasPrice c of
          Inl err \<Rightarrow> Inl err
        | Inr price \<Rightarrow>
            Inr ((if enableL1BaseFee (config g) then [go_BaseFeeLoop] else [])
               @ (if enableDaFee (config g) then [go_DaFeeLoop] else [])
               @ (if enableL2GasPrice (config g) then [go_Loop] else [])))"

text \<open>\<^verbatim>\<open>close(g.stop)\<close>: closing a closed channel panics.\<close>

definition Stop :: "GasPriceOracle \<Rightarrow> panic + GasPriceOracle" where
  "Stop g = (case stop g of Closed \<Rightarrow> Inl CloseOfClosedChannel
                          | Open \<Rightarrow> Inr (g\<lparr>stop := Closed\<rparr>))"

text \<open>
  \<^verbatim>\<open><-g.stop\<close>: the receive returns once the channel is closed; \<open>None\<close> says that it is
  blocked in this state.
\<close>

definition Wait :: "GasPriceOracle \<Rightarrow> unit option" where
  "Wait g = (case stop g of Closed \<Rightarrow> Some () | Open \<Rightarrow> None)"

subsection \<open>ensure\<close>

text \<open>
  The argument \<open>owner_answer\<close> is what \<^verbatim>\<open>g.contract.Owner\<close> returns. \<open>signerAddress\<close> is
  the \<^verbatim>\<open>if g.config.EnableHsm\<close> statement that computes \<^verbatim>\<open>address\<close>: with the HSM disabled
  the address is read through \<^verbatim>\<open>g.config.privateKey\<close>, a nil pointer dereference (\<open>None\<close>)
  when no key is configured.
\<close>

definition signerAddress :: "Config \<Rightarrow> address option" where
  "signerAddress cfg = (if EnableHsm cfg then Some (HsmAddress cfg) else privateKey cfg)"

definition ensure :: "GasPriceOracle \<Rightarrow> error + address \<Rightarrow> unit outcome" where
  "ensure g owner_answer =
     (case owner_answer of
        Inl err \<Rightarrow> Fail err
      | Inr owner \<Rightarrow>
          (case signerAddress (config g) of
             None \<Rightarrow> Panicked NilDereference
           | Some address \<Rightarrow> if address \<noteq> owner then Fail errInvalidSigningKey else Ok ()))"

subsection \<open>NewGasPriceOracle\<close>

text \<open>
  The results of the calls \<^verbatim>\<open>NewGasPriceOracle\<close> makes, in the order it makes them. A
  constructor returns an error or a handle; \<^verbatim>\<open>tokenprice.NewClient\<close> returns a pointer
  that may be nil; \<^verbatim>\<open>bindings.NewBVMEigenDataLayrFee\<close> returns a pointer and an error, kept
  as the pair they are because the function reads only the pointer.
\<close>

record backends =
  tokenprice_NewClient :: "handle option"
  ethclient_Dial :: "error + handle"
  NewL1Client :: "error + handle"
  NewBVMEigenDataLayrFee :: "handle option \<times> error option"
  l2_ChainID :: client
  l1_ChainID :: client
  NewBVMGasPriceOracle :: "error + handle"
  contract_GasPrice :: "error + nat"
  NewGasPricer :: "error + handle"
  HeaderByNumber :: "error + nat"
  wrapUpdateL2GasPriceFn :: "error + handle"
  NewGasPriceUpdater :: "error + handle"
  contract_Owner :: "error + address"

text \<open>
  \<^verbatim>\<open>cfg\<close> is a pointer and the function assigns to \<^verbatim>\<open>cfg.l2ChainID\<close> and \<^verbatim>\<open>cfg.l1ChainID\<close>, so
  the model returns the configuration as the call leaves it, with the result. The
  chain-id queries of lines 275 and 279 get the answer that follows those
  \<^verbatim>\<open>ensureConnection\<close> consumed. The two blocks of lines 284 to 300 differ in the
  message only and are the one function \<open>checkChainID\<close>: the error, or the value the
  field holds afterwards.
\<close>

definition checkChainID ::
  "string \<Rightarrow> int option \<Rightarrow> int \<Rightarrow> error + int option" where
  "checkChainID fmt configured live =
     (case configured of
        Some c \<Rightarrow> if c \<noteq> live then Inl (Errorf_w fmt [c, live] errWrongChainID)
                  else Inr configured
      | None \<Rightarrow> Inr (Some live))"

definition NewGasPriceOracle :: "Config \<Rightarrow> backends \<Rightarrow> Config \<times> GasPriceOracle outcome" where
  "NewGasPriceOracle cfg b =
    (case tokenprice_NewClient b of
       None \<Rightarrow> (cfg, Fail (Errorf ''invalid token price client''))
     | Some tokenPricer \<Rightarrow>
    (case ethclient_Dial b of Inl err \<Rightarrow> (cfg, Fail err) | Inr l2Client \<Rightarrow>
    (case NewL1Client b of Inl err \<Rightarrow> (cfg, Fail err) | Inr l1Client \<Rightarrow>
    (let daFeeClient = fst (NewBVMEigenDataLayrFee b);
         conn2 = ensureConnection (l2_ChainID b) in
     case conn_err conn2 of Some err \<Rightarrow> (cfg, Fail err) | None \<Rightarrow>
    (let conn1 = ensureConnection (l1_ChainID b) in
     case conn_err conn1 of Some err \<Rightarrow> (cfg, Fail err) | None \<Rightarrow>
    (case NewBVMGasPriceOracle b of Inl err \<Rightarrow> (cfg, Fail err) | Inr contract' \<Rightarrow>
    (case contract_GasPrice b of Inl err \<Rightarrow> (cfg, Fail err) | Inr currentPrice \<Rightarrow>
    (case NewGasPricer b of Inl err \<Rightarrow> (cfg, Fail err) | Inr gasPricer \<Rightarrow>
    (case l2_ChainID b (queries conn2) of Inl err \<Rightarrow> (cfg, Fail err) | Inr l2ChainID' \<Rightarrow>
    (case l1_ChainID b (queries conn1) of Inl err \<Rightarrow> (cfg, Fail err) | Inr l1ChainID' \<Rightarrow>
    (case checkChainID ''%w: L2: configured with %d and got %d'' (cfg_l2ChainID cfg) l2ChainID'
     of Inl err \<Rightarrow> (cfg, Fail err) | Inr id2 \<Rightarrow>
    (let cfg2 = cfg\<lparr>cfg_l2ChainID := id2\<rparr> in
     case checkChainID ''%w: L1: configured with %d and got %d'' (cfg_l1ChainID cfg2) l1ChainID'
     of Inl err \<Rightarrow> (cfg2, Fail err) | Inr id1 \<Rightarrow>
    (let cfg1 = cfg2\<lparr>cfg_l1ChainID := id1\<rparr> in
     if \<not> EnableHsm cfg1 \<and> privateKey cfg1 = None then (cfg1, Fail errNoPrivateKey) else
    (case HeaderByNumber b of Inl err \<Rightarrow> (cfg1, Fail err) | Inr epochStartBlockNumber \<Rightarrow>
    (case wrapUpdateL2GasPriceFn b of Inl err \<Rightarrow> (cfg1, Fail err) | Inr updateL2GasPriceFn \<Rightarrow>
    (case NewGasPriceUpdater b of Inl err \<Rightarrow> (cfg1, Fail err) | Inr gasPriceUpdater' \<Rightarrow>
    (let gpo = \<lparr>l1ChainID = l1ChainID', l2ChainID = l2ChainID', ctx = Background,
                stop = Open, contract = contract', l2Backend = l2Client,
                l1Backend = l1Client, daBackend = daFeeClient,
                gasPriceUpdater = gasPriceUpdater', config = cfg1\<rparr> in
     case ensure gpo (contract_Owner b) of
       Fail err \<Rightarrow> (cfg1, Fail err)
     | Panicked p \<Rightarrow> (cfg1, Panicked p)
     | Ok _ \<Rightarrow> (cfg1, Ok gpo))))))))))))))))))"

text \<open>
  The same function cut in three at lines 284 and 302, to state which step a run has
  reached: \<open>connect\<close> is lines 216 to 282 and returns what the later lines use,
  \<open>from_chain_id_check\<close> is lines 284 to 300 and \<open>from_private_key_check\<close> lines 302 to
  361. Lemma \<open>NewGasPriceOracle_staged\<close> below shows that the pieces compose to
  \<open>NewGasPriceOracle\<close>.
\<close>

record connected =
  conn_l2Client :: handle
  conn_l1Client :: handle
  conn_daFeeClient :: "handle option"
  conn_contract :: handle
  live_l2ChainID :: int
  live_l1ChainID :: int

definition connect :: "backends \<Rightarrow> error + connected" where
  "connect b =
    (case tokenprice_NewClient b of
       None \<Rightarrow> Inl (Errorf ''invalid token price client'')
     | Some tokenPricer \<Rightarrow>
    (case ethclient_Dial b of Inl err \<Rightarrow> Inl err | Inr l2Client \<Rightarrow>
    (case NewL1Client b of Inl err \<Rightarrow> Inl err | Inr l1Client \<Rightarrow>
    (let daFeeClient = fst (NewBVMEigenDataLayrFee b);
         conn2 = ensureConnection (l2_ChainID b) in
     case conn_err conn2 of Some err \<Rightarrow> Inl err | None \<Rightarrow>
    (let conn1 = ensureConnection (l1_ChainID b) in
     case conn_err conn1 of Some err \<Rightarrow> Inl err | None \<Rightarrow>
    (case NewBVMGasPriceOracle b of Inl err \<Rightarrow> Inl err | Inr contract' \<Rightarrow>
    (case contract_GasPrice b of Inl err \<Rightarrow> Inl err | Inr currentPrice \<Rightarrow>
    (case NewGasPricer b of Inl err \<Rightarrow> Inl err | Inr gasPricer \<Rightarrow>
    (case l2_ChainID b (queries conn2) of Inl err \<Rightarrow> Inl err | Inr l2ChainID' \<Rightarrow>
    (case l1_ChainID b (queries conn1) of Inl err \<Rightarrow> Inl err | Inr l1ChainID' \<Rightarrow>
       Inr \<lparr>conn_l2Client = l2Client, conn_l1Client = l1Client,
            conn_daFeeClient = daFeeClient, conn_contract = contract',
            live_l2ChainID = l2ChainID', live_l1ChainID = l1ChainID'\<rparr>))))))))))"

definition from_private_key_check ::
  "Config \<Rightarrow> backends \<Rightarrow> connected \<Rightarrow> Config \<times> GasPriceOracle outcome" where
  "from_private_key_check cfg1 b c =
    (if \<not> EnableHsm cfg1 \<and> privateKey cfg1 = None then (cfg1, Fail errNoPrivateKey) else
    (case HeaderByNumber b of Inl err \<Rightarrow> (cfg1, Fail err) | Inr epochStartBlockNumber \<Rightarrow>
    (case wrapUpdateL2GasPriceFn b of Inl err \<Rightarrow> (cfg1, Fail err) | Inr updateL2GasPriceFn \<Rightarrow>
    (case NewGasPriceUpdater b of Inl err \<Rightarrow> (cfg1, Fail err) | Inr gasPriceUpdater' \<Rightarrow>
    (let gpo = \<lparr>l1ChainID = live_l1ChainID c, l2ChainID = live_l2ChainID c, ctx = Background,
                stop = Open, contract = conn_contract c, l2Backend = conn_l2Client c,
                l1Backend = conn_l1Client c, daBackend = conn_daFeeClient c,
                gasPriceUpdater = gasPriceUpdater', config = cfg1\<rparr> in
     case ensure gpo (contract_Owner b) of
       Fail err \<Rightarrow> (cfg1, Fail err)
     | Panicked p \<Rightarrow> (cfg1, Panicked p)
     | Ok _ \<Rightarrow> (cfg1, Ok gpo))))))"

definition from_chain_id_check ::
  "Config \<Rightarrow> backends \<Rightarrow> connected \<Rightarrow> Config \<times> GasPriceOracle outcome" where
  "from_chain_id_check cfg b c =
    (case checkChainID ''%w: L2: configured with %d and got %d'' (cfg_l2ChainID cfg)
       (live_l2ChainID c)
     of Inl err \<Rightarrow> (cfg, Fail err) | Inr id2 \<Rightarrow>
    (case checkChainID ''%w: L1: configured with %d and got %d'' (cfg_l1ChainID cfg)
       (live_l1ChainID c)
     of Inl err \<Rightarrow> (cfg\<lparr>cfg_l2ChainID := id2\<rparr>, Fail err) | Inr id1 \<Rightarrow>
     from_private_key_check (cfg\<lparr>cfg_l2ChainID := id2, cfg_l1ChainID := id1\<rparr>) b c))"

subsection \<open>Update\<close>

text \<open>
  The arguments are the results of the three calls, in order: the first
  \<^verbatim>\<open>g.contract.GasPrice\<close>, \<^verbatim>\<open>g.gasPriceUpdater.UpdateGasPrice\<close>, the second
  \<^verbatim>\<open>g.contract.GasPrice\<close>.
\<close>

definition Update :: "error + nat \<Rightarrow> error option \<Rightarrow> error + nat \<Rightarrow> error option" where
  "Update gasPrice1 updateGasPrice gasPrice2 =
     (case gasPrice1 of
        Inl err \<Rightarrow> Some (Errorf_w ''cannot get gas price: %w'' [] err)
      | Inr l2GasPrice \<Rightarrow>
          (case updateGasPrice of
             Some err \<Rightarrow> Some (Errorf_w ''cannot update gas price: %w'' [] err)
           | None \<Rightarrow>
               (case gasPrice2 of
                  Inl err \<Rightarrow> Some (Errorf_w ''cannot get gas price: %w'' [] err)
                | Inr newGasPrice \<Rightarrow> None)))"

subsection \<open>The three loops\<close>

text \<open>
  Each loop is \<^verbatim>\<open>for { select { case <-timer.C: ... case <-g.ctx.Done(): g.Stop() } }\<close>.
  One iteration takes one case of the \<^verbatim>\<open>select\<close>; which one is the scheduler's choice, so a
  run of a loop is driven by a schedule, the list of cases offered in turn. \<open>TimerC r\<close> is
  the ticker firing, with \<open>r\<close> the result of the update step called on that tick; \<open>CtxDone\<close>
  is the cancellation case, which the \<^verbatim>\<open>select\<close> can only take when the \<^verbatim>\<open>Done\<close> channel is
  ready (otherwise the goroutine stays where it is). A loop has no \<^verbatim>\<open>break\<close> and no
  \<^verbatim>\<open>return\<close>: after a finite schedule it is still looping, or the process has panicked.

  The state the goroutines share is the oracle (its \<^verbatim>\<open>stop\<close> channel) and what an
  observer sees of them: the update steps called and the error lines logged, oldest
  first.
\<close>

datatype select_case = TimerC "error option" | CtxDone

datatype action = CallUpdate goroutine | LogError string error

record run_state =
  gpo :: GasPriceOracle
  trace :: "action list"

datatype loop_outcome = Looping run_state | Crashed panic

definition Loop_iter :: "select_case \<Rightarrow> run_state \<Rightarrow> loop_outcome" where
  "Loop_iter c s =
     (case c of
        TimerC r \<Rightarrow>
          Looping (s\<lparr>trace := trace s @ [CallUpdate go_Loop] @
            (case r of Some err \<Rightarrow> [LogError ''cannot update gas price'' err] | None \<Rightarrow> [])\<rparr>)
      | CtxDone \<Rightarrow>
          if Done_ready (ctx (gpo s))
          then (case Stop (gpo s) of Inl p \<Rightarrow> Crashed p
                                      | Inr g \<Rightarrow> Looping (s\<lparr>gpo := g\<rparr>))
          else Looping s)"

definition BaseFeeLoop_iter :: "select_case \<Rightarrow> run_state \<Rightarrow> loop_outcome" where
  "BaseFeeLoop_iter c s =
     (case c of
        TimerC r \<Rightarrow>
          Looping (s\<lparr>trace := trace s @ [CallUpdate go_BaseFeeLoop] @
            (case r of Some err \<Rightarrow> [LogError ''cannot update l1 base fee'' err] | None \<Rightarrow> [])\<rparr>)
      | CtxDone \<Rightarrow>
          if Done_ready (ctx (gpo s))
          then (case Stop (gpo s) of Inl p \<Rightarrow> Crashed p
                                      | Inr g \<Rightarrow> Looping (s\<lparr>gpo := g\<rparr>))
          else Looping s)"

definition DaFeeLoop_iter :: "select_case \<Rightarrow> run_state \<Rightarrow> loop_outcome" where
  "DaFeeLoop_iter c s =
     (case c of
        TimerC r \<Rightarrow>
          Looping (s\<lparr>trace := trace s @ [CallUpdate go_DaFeeLoop] @
            (case r of Some err \<Rightarrow> [LogError ''cannot update da fee'' err] | None \<Rightarrow> [])\<rparr>)
      | CtxDone \<Rightarrow>
          if Done_ready (ctx (gpo s))
          then (case Stop (gpo s) of Inl p \<Rightarrow> Crashed p
                                      | Inr g \<Rightarrow> Looping (s\<lparr>gpo := g\<rparr>))
          else Looping s)"

text \<open>The \<^verbatim>\<open>for\<close> statement: iterate along the schedule; a panic ends the run.\<close>

fun for_select ::
  "(select_case \<Rightarrow> run_state \<Rightarrow> loop_outcome) \<Rightarrow> select_case list \<Rightarrow> run_state \<Rightarrow> loop_outcome"
where
  "for_select iter [] s = Looping s"
| "for_select iter (c # cs) s =
     (case iter c s of Crashed p \<Rightarrow> Crashed p | Looping s' \<Rightarrow> for_select iter cs s')"

text \<open>
  The ticker's period is \<^verbatim>\<open>time.Duration(n) * time.Second\<close>, with \<open>n\<close> the epoch length of
  the configuration: the conversion to \<^verbatim>\<open>Duration\<close>, an \<^verbatim>\<open>int64\<close> of nanoseconds, keeps the low
  64 bits of \<open>n\<close>, the product with \<^verbatim>\<open>time.Second\<close> (1000000000) wraps around in 64 bits,
  and the result is read as a signed number. The epoch lengths are natural numbers of
  seconds (their type is declared with \<^verbatim>\<open>Config\<close>, outside this file).
\<close>

definition Duration_of_seconds :: "nat \<Rightarrow> int" where
  "Duration_of_seconds n = sint ((word_of_nat n :: 64 word) * 1000000000)"

text \<open>
  \<^verbatim>\<open>time.NewTicker\<close> panics on a period that is not positive, before anything else in the
  loop runs. \<open>wrapUpdateBaseFee\<close> and \<open>wrapUpdateDaFee\<close> are the results of the calls of those
  names.
\<close>

definition Loop :: "select_case list \<Rightarrow> run_state \<Rightarrow> loop_outcome" where
  "Loop schedule s =
     (if Duration_of_seconds (epochLengthSeconds (config (gpo s))) \<le> 0
      then Crashed NonPositiveTickerInterval
      else for_select Loop_iter schedule s)"

definition BaseFeeLoop ::
  "error + handle \<Rightarrow> select_case list \<Rightarrow> run_state \<Rightarrow> loop_outcome" where
  "BaseFeeLoop wrapUpdateBaseFee schedule s =
     (if Duration_of_seconds (l1BaseFeeEpochLengthSeconds (config (gpo s))) \<le> 0
      then Crashed NonPositiveTickerInterval
      else case wrapUpdateBaseFee of
             Inl err \<Rightarrow> Crashed (PanicError err)
           | Inr updateBaseFee \<Rightarrow> for_select BaseFeeLoop_iter schedule s)"

definition DaFeeLoop ::
  "error + handle \<Rightarrow> select_case list \<Rightarrow> run_state \<Rightarrow> loop_outcome" where
  "DaFeeLoop wrapUpdateDaFee schedule s =
     (if Duration_of_seconds (daFeeEpochLengthSeconds (config (gpo s))) \<le> 0
      then Crashed NonPositiveTickerInterval
      else case wrapUpdateDaFee of
             Inl err \<Rightarrow> Crashed (PanicError err)
           | Inr updateDaFee \<Rightarrow> for_select DaFeeLoop_iter schedule s)"

text \<open>What a tick adds to the trace: the call of the update step, and the line logged if it failed.\<close>

definition tick_log :: "goroutine \<Rightarrow> string \<Rightarrow> error option \<Rightarrow> action list" where
  "tick_log t msg r = CallUpdate t # (case r of Some err \<Rightarrow> [LogError msg err] | None \<Rightarrow> [])"

section \<open>The L2 fee controller\<close>

text \<open>
  Modelled from the spec: the package \<^verbatim>\<open>gasprices\<close> (\<^verbatim>\<open>NewGasPricer\<close>,
  \<^verbatim>\<open>NewGasPriceUpdater\<close> and the update step behind \<^verbatim>\<open>UpdateGasPrice\<close>), which
  \<^verbatim>\<open>NewGasPriceOracle\<close> and \<^verbatim>\<open>Update\<close> call, is not among the sources. The definitions of
  this section follow the per-tick steps 3 to 9 of the spec's section 4.4 word by word.
  Prices and percentages are rational numbers, since the spec states no rounding; a
  percentage is in percent units (10 is 10%).
\<close>

text \<open>
  Modelled from the spec: the parameters of \<^verbatim>\<open>Config\<close> that the controller reads.
\<close>

record FeeConfig =
  averageBlockGasLimitPerEpoch :: nat
  maxPercentChangePerEpoch :: rat
  floorPrice :: rat

text \<open>
  Modelled from the spec: the epoch window's start and the current on-chain price.
\<close>

record FeeState =
  startBlockNumber :: nat
  currentPrice :: rat

text \<open>
  Modelled from the spec: what one tick reads (steps 1, 2 and 7) and the fate of the
  transaction of step 8, should one be submitted. The measurement window of step 2 is
  given by its results, the number of blocks and the gas they used; \<open>convertFloor\<close> is the
  conversion through the price feed's rate at this tick.
\<close>

record Reading =
  latestBlockNumber :: nat
  numberOfBlocksInWindow :: nat
  actualGasUsed :: nat
  convertFloor :: "rat \<Rightarrow> rat"
  submit :: "error option"

text \<open>
  Modelled from the spec: the two ways a tick fails, the division fault of step 4 and a
  transaction that is not accepted (step 8).
\<close>

datatype tick_error = DivisionFault | SubmitFailed error

text \<open>
  Modelled from the spec: step 3, the target is
  \<^verbatim>\<open>averageBlockGasLimitPerEpoch * numberOfBlocksInWindow\<close>.
\<close>

definition targetGasForWindow :: "FeeConfig \<Rightarrow> Reading \<Rightarrow> nat" where
  "targetGasForWindow cfg rd = averageBlockGasLimitPerEpoch cfg * numberOfBlocksInWindow rd"

text \<open>
  Modelled from the spec: step 4, \<^verbatim>\<open>actualGasUsed / targetGasForWindow\<close>, with the edge case
  that zero blocks give the neutral ratio instead of a division fault. A zero target
  over a window with blocks is the division fault.
\<close>

definition loadRatio :: "FeeConfig \<Rightarrow> Reading \<Rightarrow> rat option" where
  "loadRatio cfg rd =
     (if numberOfBlocksInWindow rd = 0 then Some 1
      else if targetGasForWindow cfg rd = 0 then None
      else Some (of_nat (actualGasUsed rd) / of_nat (targetGasForWindow cfg rd)))"

text \<open>
  Modelled from the spec: step 5, the raw percent change is the load ratio relative to
  1.0, and its magnitude is clamped to \<^verbatim>\<open>maxPercentChangePerEpoch\<close>.
\<close>

definition rawPercentChange :: "rat \<Rightarrow> rat" where
  "rawPercentChange ratio = (ratio - 1) * 100"

definition clampPercentChange :: "rat \<Rightarrow> rat \<Rightarrow> rat" where
  "clampPercentChange maxPercent raw = sgn raw * min \<bar>raw\<bar> maxPercent"

definition appliedPercentChange :: "FeeConfig \<Rightarrow> Reading \<Rightarrow> rat option" where
  "appliedPercentChange cfg rd =
     (case loadRatio cfg rd of
        None \<Rightarrow> None
      | Some ratio \<Rightarrow>
          Some (clampPercentChange (maxPercentChangePerEpoch cfg) (rawPercentChange ratio)))"

text \<open>
  Modelled from the spec: step 6, the percent change applied to the current price.
\<close>

definition candidatePrice :: "rat \<Rightarrow> rat \<Rightarrow> rat" where
  "candidatePrice price percent = price * (1 + percent / 100)"

text \<open>
  Modelled from the spec: one tick, steps 3 to 9. Step 7 takes the larger of the
  candidate and the converted floor; step 8 submits a transaction only when the value
  differs from the on-chain one, and the tick fails when the transaction does; step 9
  moves the window to the latest block.
\<close>

definition tick :: "FeeConfig \<Rightarrow> FeeState \<Rightarrow> Reading \<Rightarrow> tick_error + FeeState" where
  "tick cfg s rd =
     (case appliedPercentChange cfg rd of
        None \<Rightarrow> Inl DivisionFault
      | Some percent \<Rightarrow>
          (let candidate = candidatePrice (currentPrice s) percent;
               newPrice = max candidate (convertFloor rd (floorPrice cfg))
           in if newPrice \<noteq> currentPrice s
              then (case submit rd of
                      Some err \<Rightarrow> Inl (SubmitFailed err)
                    | None \<Rightarrow> Inr \<lparr>startBlockNumber = latestBlockNumber rd,
                                    currentPrice = newPrice\<rparr>)
              else Inr (s\<lparr>startBlockNumber := latestBlockNumber rd\<rparr>)))"

text \<open>
  Modelled from the spec: a run of ticks. A failed tick is logged and the next one is
  attempted from the same state (section 7). Beside the state the run carries the
  converted floor of the latest successful tick, if there was one.
\<close>

fun run_ticks ::
  "FeeConfig \<Rightarrow> FeeState \<times> rat option \<Rightarrow> Reading list \<Rightarrow> FeeState \<times> rat option" where
  "run_ticks cfg (s, fl) [] = (s, fl)"
| "run_ticks cfg (s, fl) (rd # rds) =
     (case tick cfg s rd of
        Inl e \<Rightarrow> run_ticks cfg (s, fl) rds
      | Inr s' \<Rightarrow> run_ticks cfg (s', Some (convertFloor rd (floorPrice cfg))) rds)"

section \<open>Concrete inputs\<close>

text \<open>
  An endpoint that refuses the first \<open>n\<close> chain-id queries and then answers 5000.
\<close>

definition flaky :: "nat \<Rightarrow> client" where
  "flaky n k = (if k < n then Inl (External ''connection refused'') else Inr 5000)"

text \<open>
  A configuration without chain ids, with a local key whose address is 11; endpoints
  that all answer (layer two after two refused queries), chain ids 5000 and 1, and a
  contract owned by address 11; the configuration and the oracle that
  \<^verbatim>\<open>NewGasPriceOracle\<close> makes of them.
\<close>

definition cfg_unset :: Config where
  "cfg_unset = \<lparr>cfg_l1ChainID = None, cfg_l2ChainID = None, EnableHsm = False, HsmAddress = 0,
     privateKey = Some 11, enableL1BaseFee = True, enableL2GasPrice = True, enableDaFee = True,
     epochLengthSeconds = 10, l1BaseFeeEpochLengthSeconds = 15, daFeeEpochLengthSeconds = 20\<rparr>"

definition good_backends :: backends where
  "good_backends = \<lparr>tokenprice_NewClient = Some 1, ethclient_Dial = Inr 2, NewL1Client = Inr 3,
     NewBVMEigenDataLayrFee = (Some 4, None), l2_ChainID = flaky 2, l1_ChainID = (\<lambda>k. Inr 1),
     NewBVMGasPriceOracle = Inr 5, contract_GasPrice = Inr 1000, NewGasPricer = Inr 6,
     HeaderByNumber = Inr 77, wrapUpdateL2GasPriceFn = Inr 7, NewGasPriceUpdater = Inr 8,
     contract_Owner = Inr 11\<rparr>"

definition cfg_adopted :: Config where
  "cfg_adopted = cfg_unset\<lparr>cfg_l2ChainID := Some 5000, cfg_l1ChainID := Some 1\<rparr>"

definition oracle0 :: GasPriceOracle where
  "oracle0 = \<lparr>l1ChainID = 1, l2ChainID = 5000, ctx = Background, stop = Open, contract = 5,
     l2Backend = 2, l1Backend = 3, daBackend = Some 4, gasPriceUpdater = 8, config = cfg_adopted\<rparr>"

text \<open>The contract as it answers once ownership has passed to address 12.\<close>

definition view_other_owner :: contract_view where
  "view_other_owner = \<lparr>GasPrice = Inr 1000, Owner = Inr 12\<rparr>"

text \<open>The same endpoints, with the binding of the DA-fee contract failing.\<close>

definition backends_da_failed :: backends where
  "backends_da_failed =
     good_backends\<lparr>NewBVMEigenDataLayrFee := (None, Some (External ''no contract code''))\<rparr>"

text \<open>
  The oracle of above after \<^verbatim>\<open>Stop()\<close>, and with a context that has been cancelled, each
  with an empty trace; an error of an RPC call.
\<close>

definition stopped0 :: run_state where
  "stopped0 = \<lparr>gpo = oracle0\<lparr>stop := Closed\<rparr>, trace = []\<rparr>"

definition cancelled0 :: run_state where
  "cancelled0 = \<lparr>gpo = oracle0\<lparr>ctx := WithCancel True\<rparr>, trace = []\<rparr>"

definition rpc_down :: error where
  "rpc_down = External ''connection reset''"

text \<open>
  The same oracle with epoch lengths of 9223372037 seconds, the least length whose
  period in nanoseconds no longer fits 63 bits.
\<close>

definition long_epochs :: run_state where
  "long_epochs = \<lparr>gpo = oracle0\<lparr>config := cfg_adopted\<lparr>epochLengthSeconds := 9223372037,
     l1BaseFeeEpochLengthSeconds := 9223372037, daFeeEpochLengthSeconds := 9223372037\<rparr>\<rparr>,
     trace = []\<rparr>"

text \<open>
  A controller configuration with a 10% bound, a state at price 1000, and four readings:
  twice the target gas, a tenth of it, the target met while the converted floor stands
  at 2000, and a tick whose transaction fails.
\<close>

definition fee_cfg0 :: FeeConfig where
  "fee_cfg0 = \<lparr>averageBlockGasLimitPerEpoch = 100, maxPercentChangePerEpoch = 10,
     floorPrice = 1\<rparr>"

definition fee_state0 :: FeeState where
  "fee_state0 = \<lparr>startBlockNumber = 40, currentPrice = 1000\<rparr>"

definition reading_busy :: Reading where
  "reading_busy = \<lparr>latestBlockNumber = 50, numberOfBlocksInWindow = 10, actualGasUsed = 2000,
     convertFloor = (\<lambda>p. p * 2), submit = None\<rparr>"

definition reading_idle :: Reading where
  "reading_idle = \<lparr>latestBlockNumber = 50, numberOfBlocksInWindow = 10, actualGasUsed = 100,
     convertFloor = (\<lambda>p. p * 2), submit = None\<rparr>"

definition reading_dear_floor :: Reading where
  "reading_dear_floor = \<lparr>latestBlockNumber = 60, numberOfBlocksInWindow = 10,
     actualGasUsed = 1000, convertFloor = (\<lambda>p. p * 2000), submit = None\<rparr>"

definition reading_tx_fails :: Reading where
  "reading_tx_fails = \<lparr>latestBlockNumber = 70, numberOfBlocksInWindow = 10,
     actualGasUsed = 2000, convertFloor = (\<lambda>p. p * 3000), submit = Some rpc_down\<rparr>"

section \<open>Properties\<close>

subsection \<open>NewGasPriceOracle in stages\<close>

lemma NewGasPriceOracle_staged:
  "NewGasPriceOracle cfg b =
     (case connect b of Inl err \<Rightarrow> (cfg, Fail err) | Inr c \<Rightarrow> from_chain_id_check cfg b c)"
  unfolding NewGasPriceOracle_def connect_def from_chain_id_check_def from_private_key_check_def
  by (simp add: Let_def split: option.split sum.split)

subsection \<open>The connectivity check\<close>

lemma ensureConnection_loop_success:
  "\<forall>k<n. isl (chainID (a + k)) \<Longrightarrow> \<not> isl (chainID (a + n)) \<Longrightarrow> r + n \<le> 90 \<Longrightarrow>
   ensureConnection_loop chainID a r w =
     \<lparr>conn_err = None, queries = a + n + 1, tick_waits = w + n\<rparr>"
proof (induction n arbitrary: a r w)
  case 0
  then show ?case by (cases "chainID a") auto
next
  case (Suc n)
  from Suc.prems(1) have h0: "isl (chainID a)" by (metis add.right_neutral zero_less_Suc)
  have h1: "\<forall>k<n. isl (chainID (Suc a + k))" using Suc.prems(1) by auto
  have h2: "\<not> isl (chainID (Suc a + n))" using Suc.prems(2) by simp
  have h3: "Suc r + n \<le> 90" using Suc.prems(3) by simp
  from Suc.IH[OF h1 h2 h3, of "Suc w"] h0 Suc.prems(3) show ?case
    by (cases "chainID a") auto
qed

lemma ensureConnection_loop_failure:
  "d = 90 - r \<Longrightarrow> r \<le> 90 \<Longrightarrow> \<forall>k\<le>d. isl (chainID (a + k)) \<Longrightarrow>
   ensureConnection_loop chainID a r w =
     \<lparr>conn_err = Some (projl (chainID (a + d))), queries = a + d + 1, tick_waits = w + d\<rparr>"
proof (induction d arbitrary: a r w)
  case 0
  then have "isl (chainID a)" "r = 90" by auto
  then show ?case by (cases "chainID a") auto
next
  case (Suc d)
  from Suc.prems(3) have h0: "isl (chainID a)" by (metis add.right_neutral le0)
  have h1: "d = 90 - Suc r" "Suc r \<le> 90" using Suc.prems by auto
  have h2: "\<forall>k\<le>d. isl (chainID (Suc a + k))" using Suc.prems(3) by auto
  from Suc.IH[OF h1 h2, of "Suc w"] h0 h1 show ?case
    by (cases "chainID a") auto
qed

lemma first_answer:
  "\<not> (\<forall>k\<le>(m::nat). P k) \<Longrightarrow> \<exists>n\<le>m. (\<forall>k<n. P k) \<and> \<not> P n"
proof -
  assume "\<not> (\<forall>k\<le>m. P k)"
  then obtain j where j: "\<not> P j" "j \<le> m" by auto
  define n where "n = (LEAST i. \<not> P i)"
  have "\<not> P n" unfolding n_def using j(1) by (rule LeastI)
  moreover have "n \<le> j" unfolding n_def using j(1) by (rule Least_le)
  moreover have "\<forall>k<n. P k" unfolding n_def using not_less_Least by blast
  ultimately show ?thesis using j(2) by (intro exI[of _ n]) auto
qed

text \<open>
  C4. The connectivity check asks for the chain id, waits one tick of its one-second
  ticker after each failed query, and asks again. If the first \<open>n\<close> queries fail, with
  \<open>n\<close> at most 90, and the next one succeeds, it returns no error, after \<open>n + 1\<close> queries
  and \<open>n\<close> waits. It returns an error exactly when the first 91 queries all fail (the retry
  counter then exceeds 90), and the error is that of the last query. In every run each
  query but the first follows exactly one wait on the ticker, whose period is the
  constant one second.
\<close>

theorem ensureConnection_retry_cap:
  "(n \<le> 90 \<and> (\<forall>k<n. isl (chainID k)) \<and> \<not> isl (chainID n) \<longrightarrow>
      ensureConnection chainID = \<lparr>conn_err = None, queries = n + 1, tick_waits = n\<rparr>)
   \<and> ((\<forall>k\<le>90. isl (chainID k)) \<longrightarrow>
      ensureConnection chainID =
        \<lparr>conn_err = Some (projl (chainID 90)), queries = 91, tick_waits = 90\<rparr>)
   \<and> (conn_err (ensureConnection chainID) \<noteq> None \<longleftrightarrow> (\<forall>k\<le>90. isl (chainID k)))
   \<and> tick_waits (ensureConnection chainID) + 1 = queries (ensureConnection chainID)
   \<and> ensureConnection_period_seconds = 1"
proof -
  have A: "ensureConnection chainID = \<lparr>conn_err = None, queries = m + 1, tick_waits = m\<rparr>"
    if "m \<le> 90" "\<forall>k<m. isl (chainID k)" "\<not> isl (chainID m)" for m
    using ensureConnection_loop_success[of m chainID 0 0 0] that
    by (simp add: ensureConnection_def)
  have B: "ensureConnection chainID =
        \<lparr>conn_err = Some (projl (chainID 90)), queries = 91, tick_waits = 90\<rparr>"
    if "\<forall>k\<le>90. isl (chainID k)"
    using ensureConnection_loop_failure[of 90 0 chainID 0 0] that
    by (simp add: ensureConnection_def)
  have C: "conn_err (ensureConnection chainID) \<noteq> None \<longleftrightarrow> (\<forall>k\<le>90. isl (chainID k))"
  proof (cases "\<forall>k\<le>90. isl (chainID k)")
    case True
    then show ?thesis using B by simp
  next
    case False
    from first_answer[OF False] obtain m where
      "m \<le> 90" "\<forall>k<m. isl (chainID k)" "\<not> isl (chainID m)" by blast
    from A[OF this] False show ?thesis by simp
  qed
  have D: "tick_waits (ensureConnection chainID) + 1 = queries (ensureConnection chainID)"
  proof (cases "\<forall>k\<le>90. isl (chainID k)")
    case True
    then show ?thesis using B by simp
  next
    case False
    from first_answer[OF False] obtain m where
      "m \<le> 90" "\<forall>k<m. isl (chainID k)" "\<not> isl (chainID m)" by blast
    from A[OF this] show ?thesis by simp
  qed
  from A B C D show ?thesis by (simp add: ensureConnection_period_seconds_def)
qed

theorem ensureConnection_retry_cap_witness:
  "ensureConnection (flaky 90) = \<lparr>conn_err = None, queries = 91, tick_waits = 90\<rparr>
   \<and> ensureConnection (flaky 91) =
       \<lparr>conn_err = Some (External ''connection refused''), queries = 91, tick_waits = 90\<rparr>"
proof -
  have a: "(90::nat) \<le> 90 \<and> (\<forall>k<90. isl (flaky 90 k)) \<and> \<not> isl (flaky 90 90)"
    by (simp add: flaky_def)
  have b: "\<forall>k\<le>90. isl (flaky 91 k)" by (simp add: flaky_def)
  from ensureConnection_retry_cap[of 90 "flaky 90"] a
  have "ensureConnection (flaky 90) = \<lparr>conn_err = None, queries = 91, tick_waits = 90\<rparr>"
    by simp
  moreover from ensureConnection_retry_cap[of 0 "flaky 91"] b
  have "ensureConnection (flaky 91) =
       \<lparr>conn_err = Some (projl (flaky 91 90)), queries = 91, tick_waits = 90\<rparr>" by blast
  ultimately show ?thesis by (simp add: flaky_def)
qed

lemma connect_Owner:
  "connect (b\<lparr>contract_Owner := x\<rparr>) = connect b"
  unfolding connect_def by (simp add: Let_def split: option.split sum.split)

lemma from_private_key_check_fst: "fst (from_private_key_check cfg1 b c) = cfg1"
  unfolding from_private_key_check_def
  by (simp add: Let_def split: sum.split outcome.split)

lemma from_chain_id_check_signer:
  "signerAddress (cfg\<lparr>cfg_l2ChainID := x, cfg_l1ChainID := y\<rparr>) = signerAddress cfg"
  by (simp add: signerAddress_def)

lemma ensure_Ok:
  "ensure g a = Ok u \<longleftrightarrow> (\<exists>owner. a = Inr owner \<and> signerAddress (config g) = Some owner)"
  unfolding ensure_def by (auto split: sum.split option.split)

lemma ensure_mismatch:
  "signerAddress (config g) = Some a \<Longrightarrow> a \<noteq> owner \<Longrightarrow> ensure g (Inr owner) = Fail errInvalidSigningKey"
  unfolding ensure_def by simp

lemma from_private_key_check_Ok:
  assumes "from_private_key_check cfg1 b c = (cfg', Ok g)"
  shows "cfg' = cfg1 \<and> config g = cfg1 \<and> daBackend g = conn_daFeeClient c
       \<and> l2ChainID g = live_l2ChainID c \<and> l1ChainID g = live_l1ChainID c
       \<and> ctx g = Background \<and> stop g = Open
       \<and> (\<exists>owner. contract_Owner b = Inr owner \<and> signerAddress cfg1 = Some owner)
       \<and> \<not> isl (HeaderByNumber b) \<and> \<not> isl (wrapUpdateL2GasPriceFn b)
       \<and> \<not> isl (NewGasPriceUpdater b)"
proof -
  from assms obtain n u p where eqs: "HeaderByNumber b = Inr n" "wrapUpdateL2GasPriceFn b = Inr u"
      "NewGasPriceUpdater b = Inr p" and key: "\<not> (\<not> EnableHsm cfg1 \<and> privateKey cfg1 = None)"
    unfolding from_private_key_check_def
    by (cases "HeaderByNumber b"; cases "wrapUpdateL2GasPriceFn b"; cases "NewGasPriceUpdater b")
       (simp_all split: if_splits)
  let ?g = "\<lparr>l1ChainID = live_l1ChainID c, l2ChainID = live_l2ChainID c, ctx = Background,
                stop = Open, contract = conn_contract c, l2Backend = conn_l2Client c,
                l1Backend = conn_l1Client c, daBackend = conn_daFeeClient c,
                gasPriceUpdater = p, config = cfg1\<rparr>"
  from assms have *: "(case ensure ?g (contract_Owner b) of
       Fail err \<Rightarrow> (cfg1, Fail err)
     | Panicked p \<Rightarrow> (cfg1, Panicked p)
     | Ok _ \<Rightarrow> (cfg1, Ok ?g)) = (cfg', Ok g)"
    unfolding from_private_key_check_def using key by (simp add: eqs Let_def)
  then have ok: "ensure ?g (contract_Owner b) = Ok ()" and g: "g = ?g" and c: "cfg' = cfg1"
    by (cases "ensure ?g (contract_Owner b)"; simp)+
  from ok have "\<exists>owner. contract_Owner b = Inr owner \<and> signerAddress cfg1 = Some owner"
    by (simp add: ensure_Ok)
  with g c eqs show ?thesis by simp
qed

lemma from_chain_id_check_Ok:
  assumes "from_chain_id_check cfg b c = (cfg', Ok g)"
  shows "\<exists>id2 id1. checkChainID ''%w: L2: configured with %d and got %d'' (cfg_l2ChainID cfg)
              (live_l2ChainID c) = Inr id2
         \<and> checkChainID ''%w: L1: configured with %d and got %d'' (cfg_l1ChainID cfg)
              (live_l1ChainID c) = Inr id1
         \<and> from_private_key_check (cfg\<lparr>cfg_l2ChainID := id2, cfg_l1ChainID := id1\<rparr>) b c
            = (cfg', Ok g)"
  using assms unfolding from_chain_id_check_def
  by (cases "checkChainID ''%w: L2: configured with %d and got %d'' (cfg_l2ChainID cfg)
              (live_l2ChainID c)";
      cases "checkChainID ''%w: L1: configured with %d and got %d'' (cfg_l1ChainID cfg)
              (live_l1ChainID c)") simp_all

lemma NewGasPriceOracle_Ok:
  assumes "NewGasPriceOracle cfg b = (cfg', Ok g)"
  shows "\<exists>c. connect b = Inr c \<and> from_chain_id_check cfg b c = (cfg', Ok g)"
  using assms unfolding NewGasPriceOracle_staged by (cases "connect b") simp_all

lemma NewGasPriceOracle_owner:
  assumes "NewGasPriceOracle cfg b = (cfg', Ok g)"
  shows "contract_Owner b = Inr (the (signerAddress cfg)) \<and> signerAddress cfg \<noteq> None"
proof -
  from NewGasPriceOracle_Ok[OF assms] obtain c where
    "from_chain_id_check cfg b c = (cfg', Ok g)" by blast
  from from_chain_id_check_Ok[OF this] obtain id2 id1 where
    "from_private_key_check (cfg\<lparr>cfg_l2ChainID := id2, cfg_l1ChainID := id1\<rparr>) b c = (cfg', Ok g)"
    by blast
  from from_private_key_check_Ok[OF this] show ?thesis
    by (auto simp: from_chain_id_check_signer)
qed

lemma ensureConnection_flaky_2:
  "ensureConnection (flaky 2) = \<lparr>conn_err = None, queries = 3, tick_waits = 2\<rparr>"
  by (simp add: ensureConnection_def flaky_def)

lemma ensureConnection_steady:
  "ensureConnection (\<lambda>k. Inr n) = \<lparr>conn_err = None, queries = 1, tick_waits = 0\<rparr>"
  by (simp add: ensureConnection_def)

lemma connect_good_backends:
  "connect good_backends =
     Inr \<lparr>conn_l2Client = 2, conn_l1Client = 3, conn_daFeeClient = Some 4, conn_contract = 5,
          live_l2ChainID = 5000, live_l1ChainID = 1\<rparr>"
  by (simp add: connect_def good_backends_def ensureConnection_flaky_2 ensureConnection_steady
      Let_def flaky_def)

lemma NewGasPriceOracle_good_backends:
  "NewGasPriceOracle cfg_unset good_backends = (cfg_adopted, Ok oracle0)"
  unfolding NewGasPriceOracle_staged connect_good_backends
  by (simp add: from_chain_id_check_def from_private_key_check_def checkChainID_def
      good_backends_def cfg_unset_def cfg_adopted_def oracle0_def ensure_def signerAddress_def)

subsection \<open>The chain ids\<close>

text \<open>
  C6. Let the steps before the comparison of the chain ids succeed (\<open>connect b = Inr c\<close>), so
  that \<open>live_l2ChainID c\<close> and \<open>live_l1ChainID c\<close> are the ids the two endpoints report. A
  configured L2 id that differs from the live one makes \<^verbatim>\<open>NewGasPriceOracle\<close> fail with
  \<^verbatim>\<open>errWrongChainID\<close> wrapped in the L2 message. When the L2 id is absent or right, a
  configured L1 id that differs from the live one makes it fail with \<^verbatim>\<open>errWrongChainID\<close>
  wrapped in the L1 message. An L2 id that is not configured is set to the live value in
  the configuration, and the call gives what it gives for a configuration that states
  the live id; so does an L1 id that is not configured, once the L2 id has passed. The
  wrapped errors are \<^verbatim>\<open>errWrongChainID\<close> for \<^verbatim>\<open>errors.Is\<close>.
\<close>

theorem chain_id_check:
  assumes "connect b = Inr c"
  shows "(cfg_l2ChainID cfg = Some n \<and> n \<noteq> live_l2ChainID c \<longrightarrow>
           NewGasPriceOracle cfg b =
             (cfg, Fail (Errorf_w ''%w: L2: configured with %d and got %d''
                          [n, live_l2ChainID c] errWrongChainID)))
       \<and> (cfg_l2ChainID cfg \<in> {None, Some (live_l2ChainID c)}
          \<and> cfg_l1ChainID cfg = Some n \<and> n \<noteq> live_l1ChainID c \<longrightarrow>
           NewGasPriceOracle cfg b =
             (cfg\<lparr>cfg_l2ChainID := Some (live_l2ChainID c)\<rparr>,
              Fail (Errorf_w ''%w: L1: configured with %d and got %d''
                     [n, live_l1ChainID c] errWrongChainID)))
       \<and> (cfg_l2ChainID cfg = None \<longrightarrow>
           cfg_l2ChainID (fst (NewGasPriceOracle cfg b)) = Some (live_l2ChainID c)
         \<and> NewGasPriceOracle cfg b
             = NewGasPriceOracle (cfg\<lparr>cfg_l2ChainID := Some (live_l2ChainID c)\<rparr>) b)
       \<and> (cfg_l2ChainID cfg \<in> {None, Some (live_l2ChainID c)} \<and> cfg_l1ChainID cfg = None \<longrightarrow>
           cfg_l1ChainID (fst (NewGasPriceOracle cfg b)) = Some (live_l1ChainID c)
         \<and> NewGasPriceOracle cfg b
             = NewGasPriceOracle (cfg\<lparr>cfg_l1ChainID := Some (live_l1ChainID c)\<rparr>) b)
       \<and> errors_Is (Errorf_w fmt args errWrongChainID) errWrongChainID"
proof (intro conjI impI)
  show "errors_Is (Errorf_w fmt args errWrongChainID) errWrongChainID" by simp
next
  assume "cfg_l2ChainID cfg = Some n \<and> n \<noteq> live_l2ChainID c"
  then show "NewGasPriceOracle cfg b =
             (cfg, Fail (Errorf_w ''%w: L2: configured with %d and got %d''
                          [n, live_l2ChainID c] errWrongChainID))"
    unfolding NewGasPriceOracle_staged assms
    by (simp add: from_chain_id_check_def checkChainID_def)
next
  assume "cfg_l2ChainID cfg \<in> {None, Some (live_l2ChainID c)}
          \<and> cfg_l1ChainID cfg = Some n \<and> n \<noteq> live_l1ChainID c"
  then show "NewGasPriceOracle cfg b =
             (cfg\<lparr>cfg_l2ChainID := Some (live_l2ChainID c)\<rparr>,
              Fail (Errorf_w ''%w: L1: configured with %d and got %d''
                     [n, live_l1ChainID c] errWrongChainID))"
    unfolding NewGasPriceOracle_staged assms
    by (auto simp add: from_chain_id_check_def checkChainID_def)
next
  assume a: "cfg_l2ChainID cfg = None"
  then show "cfg_l2ChainID (fst (NewGasPriceOracle cfg b)) = Some (live_l2ChainID c)"
    unfolding NewGasPriceOracle_staged assms
    by (simp add: from_chain_id_check_def checkChainID_def from_private_key_check_fst
        split: option.split)
  from a show "NewGasPriceOracle cfg b
             = NewGasPriceOracle (cfg\<lparr>cfg_l2ChainID := Some (live_l2ChainID c)\<rparr>) b"
    unfolding NewGasPriceOracle_staged assms
    by (simp add: from_chain_id_check_def checkChainID_def split: sum.split option.split)
next
  assume a: "cfg_l2ChainID cfg \<in> {None, Some (live_l2ChainID c)} \<and> cfg_l1ChainID cfg = None"
  then show "cfg_l1ChainID (fst (NewGasPriceOracle cfg b)) = Some (live_l1ChainID c)"
    unfolding NewGasPriceOracle_staged assms
    by (auto simp add: from_chain_id_check_def checkChainID_def from_private_key_check_fst)
  from a show "NewGasPriceOracle cfg b
             = NewGasPriceOracle (cfg\<lparr>cfg_l1ChainID := Some (live_l1ChainID c)\<rparr>) b"
    unfolding NewGasPriceOracle_staged assms
    by (auto simp add: from_chain_id_check_def checkChainID_def split: sum.split option.split)
qed

theorem chain_id_check_witness:
  "NewGasPriceOracle (cfg_unset\<lparr>cfg_l2ChainID := Some 5001\<rparr>) good_backends
     = (cfg_unset\<lparr>cfg_l2ChainID := Some 5001\<rparr>,
        Fail (Errorf_w ''%w: L2: configured with %d and got %d'' [5001, 5000] errWrongChainID))
   \<and> NewGasPriceOracle (cfg_unset\<lparr>cfg_l1ChainID := Some 2\<rparr>) good_backends
     = (cfg_unset\<lparr>cfg_l1ChainID := Some 2, cfg_l2ChainID := Some 5000\<rparr>,
        Fail (Errorf_w ''%w: L1: configured with %d and got %d'' [2, 1] errWrongChainID))
   \<and> cfg_l2ChainID (fst (NewGasPriceOracle cfg_unset good_backends)) = Some 5000
   \<and> cfg_l1ChainID (fst (NewGasPriceOracle cfg_unset good_backends)) = Some 1
   \<and> snd (NewGasPriceOracle cfg_unset good_backends) = Ok oracle0"
proof -
  note t = chain_id_check[OF connect_good_backends]
  have "NewGasPriceOracle (cfg_unset\<lparr>cfg_l2ChainID := Some 5001\<rparr>) good_backends
     = (cfg_unset\<lparr>cfg_l2ChainID := Some 5001\<rparr>,
        Fail (Errorf_w ''%w: L2: configured with %d and got %d'' [5001, 5000] errWrongChainID))"
    using t[of "cfg_unset\<lparr>cfg_l2ChainID := Some 5001\<rparr>" 5001] by simp
  moreover have "NewGasPriceOracle (cfg_unset\<lparr>cfg_l1ChainID := Some 2\<rparr>) good_backends
     = (cfg_unset\<lparr>cfg_l1ChainID := Some 2, cfg_l2ChainID := Some 5000\<rparr>,
        Fail (Errorf_w ''%w: L1: configured with %d and got %d'' [2, 1] errWrongChainID))"
    using t[of "cfg_unset\<lparr>cfg_l1ChainID := Some 2\<rparr>" 2] by (simp add: cfg_unset_def)
  moreover have "cfg_l2ChainID (fst (NewGasPriceOracle cfg_unset good_backends)) = Some 5000
      \<and> cfg_l1ChainID (fst (NewGasPriceOracle cfg_unset good_backends)) = Some 1"
  proof -
    let ?c = "\<lparr>conn_l2Client = 2, conn_l1Client = 3, conn_daFeeClient = Some 4,
               conn_contract = 5, live_l2ChainID = 5000, live_l1ChainID = 1\<rparr>"
    have u: "cfg_l2ChainID cfg_unset = None" "cfg_l1ChainID cfg_unset = None"
      by (simp_all add: cfg_unset_def)
    from t[of cfg_unset 0] u
    have "cfg_l2ChainID (fst (NewGasPriceOracle cfg_unset good_backends))
            = Some (live_l2ChainID ?c)
        \<and> cfg_l1ChainID (fst (NewGasPriceOracle cfg_unset good_backends))
            = Some (live_l1ChainID ?c)"
      by blast
    then show ?thesis by simp
  qed
  moreover have "snd (NewGasPriceOracle cfg_unset good_backends) = Ok oracle0"
    by (simp add: NewGasPriceOracle_good_backends)
  ultimately show ?thesis by blast
qed

subsection \<open>The ownership check\<close>

text \<open>
  C3, as the code has it. The ownership check is the call of \<^verbatim>\<open>ensure\<close> that ends
  \<^verbatim>\<open>NewGasPriceOracle\<close>, after the oracle value is built; \<^verbatim>\<open>Start\<close> makes none. Whenever the
  contract's owner is not the signer's address, \<^verbatim>\<open>NewGasPriceOracle\<close> returns no oracle, so
  that there is nothing to call \<^verbatim>\<open>Start\<close> on and no loop is launched. Where the construction
  succeeds with the right owner, it returns \<^verbatim>\<open>errInvalidSigningKey\<close> with any owner that is
  not the signer's address. The result of \<^verbatim>\<open>Start\<close> does not depend on the owner the
  contract reports.
\<close>

theorem ownership_checked_at_construction:
  "(contract_Owner b = Inr owner \<and> signerAddress cfg \<noteq> Some owner \<longrightarrow>
      (\<forall>g. snd (NewGasPriceOracle cfg b) \<noteq> Ok g))
   \<and> (NewGasPriceOracle cfg b = (cfg', Ok g) \<and> signerAddress cfg \<noteq> Some owner' \<longrightarrow>
      NewGasPriceOracle cfg (b\<lparr>contract_Owner := Inr owner'\<rparr>) = (cfg', Fail errInvalidSigningKey))
   \<and> Start g (view\<lparr>Owner := answer\<rparr>) = Start g view"
proof (intro conjI impI allI)
  fix g' assume a: "contract_Owner b = Inr owner \<and> signerAddress cfg \<noteq> Some owner"
  show "snd (NewGasPriceOracle cfg b) \<noteq> Ok g'"
  proof
    assume "snd (NewGasPriceOracle cfg b) = Ok g'"
    then have "NewGasPriceOracle cfg b = (fst (NewGasPriceOracle cfg b), Ok g')"
      by (metis prod.collapse)
    from NewGasPriceOracle_owner[OF this] a show False by auto
  qed
next
  assume a: "NewGasPriceOracle cfg b = (cfg', Ok g) \<and> signerAddress cfg \<noteq> Some owner'"
  let ?b = "b\<lparr>contract_Owner := Inr owner'\<rparr>"
  from a NewGasPriceOracle_Ok obtain c where c: "connect b = Inr c"
    and f: "from_chain_id_check cfg b c = (cfg', Ok g)" by blast
  from from_chain_id_check_Ok[OF f] obtain id2 id1 where
    ids: "checkChainID ''%w: L2: configured with %d and got %d'' (cfg_l2ChainID cfg)
              (live_l2ChainID c) = Inr id2"
      "checkChainID ''%w: L1: configured with %d and got %d'' (cfg_l1ChainID cfg)
              (live_l1ChainID c) = Inr id1"
    and p: "from_private_key_check (cfg\<lparr>cfg_l2ChainID := id2, cfg_l1ChainID := id1\<rparr>) b c
            = (cfg', Ok g)" by blast
  let ?cfg1 = "cfg\<lparr>cfg_l2ChainID := id2, cfg_l1ChainID := id1\<rparr>"
  from from_private_key_check_Ok[OF p] obtain owner n u q where
    facts: "cfg' = ?cfg1" "signerAddress ?cfg1 = Some owner"
      "HeaderByNumber b = Inr n" "wrapUpdateL2GasPriceFn b = Inr u" "NewGasPriceUpdater b = Inr q"
    by (cases "HeaderByNumber b"; cases "wrapUpdateL2GasPriceFn b"; cases "NewGasPriceUpdater b")
       auto
  from facts(2) a have ne: "owner \<noteq> owner'" by (simp add: from_chain_id_check_signer)
  from facts(2) have key: "\<not> (\<not> EnableHsm ?cfg1 \<and> privateKey ?cfg1 = None)"
    by (auto simp: signerAddress_def)
  have c': "connect ?b = Inr c" using c by (simp add: connect_Owner)
  have "from_private_key_check ?cfg1 ?b c = (?cfg1, Fail errInvalidSigningKey)"
    unfolding from_private_key_check_def using key
    by (simp add: facts(3-5) Let_def ensure_mismatch[OF _ ne] facts(2))
  then show "NewGasPriceOracle cfg ?b = (cfg', Fail errInvalidSigningKey)"
    unfolding NewGasPriceOracle_staged c' from_chain_id_check_def
    by (simp add: ids facts(1))
next
  show "Start g (view\<lparr>Owner := answer\<rparr>) = Start g view"
    by (simp add: Start_def)
qed

theorem ownership_checked_at_construction_witness:
  "NewGasPriceOracle cfg_unset (good_backends\<lparr>contract_Owner := Inr 12\<rparr>)
     = (cfg_adopted, Fail errInvalidSigningKey)
   \<and> (\<forall>g. snd (NewGasPriceOracle cfg_unset (good_backends\<lparr>contract_Owner := Inr 12\<rparr>)) \<noteq> Ok g)"
proof -
  have s: "signerAddress cfg_unset \<noteq> Some 12" by (simp add: signerAddress_def cfg_unset_def)
  have o: "contract_Owner (good_backends\<lparr>contract_Owner := Inr 12\<rparr>) = Inr 12" by simp
  from ownership_checked_at_construction[of "good_backends\<lparr>contract_Owner := Inr 12\<rparr>" 12
      cfg_unset] s o
  have "\<forall>g. snd (NewGasPriceOracle cfg_unset (good_backends\<lparr>contract_Owner := Inr 12\<rparr>)) \<noteq> Ok g"
    by blast
  moreover from ownership_checked_at_construction[of good_backends _ cfg_unset cfg_adopted
      oracle0 12] s NewGasPriceOracle_good_backends
  have "NewGasPriceOracle cfg_unset (good_backends\<lparr>contract_Owner := Inr 12\<rparr>)
     = (cfg_adopted, Fail errInvalidSigningKey)" by blast
  ultimately show ?thesis by blast
qed

text \<open>
  C3 as stated fails: on the oracle that \<^verbatim>\<open>NewGasPriceOracle\<close> built, with the signer's
  address 11 and a contract that by now reports the owner 12, \<^verbatim>\<open>Start\<close> returns no error
  and launches the three loops.
\<close>

theorem Start_checks_no_owner_counterexample:
  "NewGasPriceOracle cfg_unset good_backends = (cfg_adopted, Ok oracle0)
   \<and> signerAddress (config oracle0) = Some 11 \<and> Owner view_other_owner = Inr 12
   \<and> Start oracle0 view_other_owner = Inr [go_BaseFeeLoop, go_DaFeeLoop, go_Loop]"
proof -
  have "signerAddress (config oracle0) = Some 11 \<and> Owner view_other_owner = Inr 12
   \<and> Start oracle0 view_other_owner = Inr [go_BaseFeeLoop, go_DaFeeLoop, go_Loop]"
    by (simp add: Start_def oracle0_def cfg_adopted_def cfg_unset_def view_other_owner_def
        signerAddress_def)
  with NewGasPriceOracle_good_backends show ?thesis by (rule conjI)
qed

subsection \<open>The DA-fee binding\<close>

lemma connect_daFee:
  "connect (b\<lparr>NewBVMEigenDataLayrFee := (d, e)\<rparr>)
     = map_sum id (\<lambda>c. c\<lparr>conn_daFeeClient := d\<rparr>) (connect b)"
  unfolding connect_def by (simp add: Let_def split: option.split sum.split)

lemma from_private_key_check_daFee:
  "from_private_key_check cfg1 (b\<lparr>NewBVMEigenDataLayrFee := x\<rparr>) (c\<lparr>conn_daFeeClient := d\<rparr>)
     = apsnd (map_outcome (\<lambda>g. g\<lparr>daBackend := d\<rparr>)) (from_private_key_check cfg1 b c)"
proof -
  have e: "ensure \<lparr>l1ChainID = a1, l2ChainID = a2, ctx = a3, stop = a4, contract = a5,
                   l2Backend = a6, l1Backend = a7, daBackend = d, gasPriceUpdater = a8,
                   config = a9\<rparr> a
         = ensure \<lparr>l1ChainID = a1, l2ChainID = a2, ctx = a3, stop = a4, contract = a5,
                   l2Backend = a6, l1Backend = a7, daBackend = d', gasPriceUpdater = a8,
                   config = a9\<rparr> a" for a1 a2 a3 a4 a5 a6 a7 a8 a9 a d'
    by (simp add: ensure_def split: sum.split)
  show ?thesis
    unfolding from_private_key_check_def
    by (simp add: Let_def e[of _ _ _ _ _ _ _ _ _ _ "conn_daFeeClient c"]
        split: sum.split outcome.split)
qed

lemma from_chain_id_check_daFee:
  "from_chain_id_check cfg (b\<lparr>NewBVMEigenDataLayrFee := x\<rparr>) (c\<lparr>conn_daFeeClient := d\<rparr>)
     = apsnd (map_outcome (\<lambda>g. g\<lparr>daBackend := d\<rparr>)) (from_chain_id_check cfg b c)"
  unfolding from_chain_id_check_def
  by (simp add: from_private_key_check_daFee split: sum.split)

text \<open>
  C10. Whatever pointer \<open>d\<close> and error \<open>e\<close> \<^verbatim>\<open>bindings.NewBVMEigenDataLayrFee\<close> returns,
  \<^verbatim>\<open>NewGasPriceOracle\<close> gives what it gives for any other result of that call, except that
  a returned oracle has \<open>d\<close> as its \<^verbatim>\<open>daBackend\<close>: the error is never read, it turns no
  success into a failure, and the oracle is returned with the pointer that came with
  the error.
\<close>

theorem daFee_binding_error_discarded:
  "NewGasPriceOracle cfg (b\<lparr>NewBVMEigenDataLayrFee := (d, e)\<rparr>)
     = apsnd (map_outcome (\<lambda>g. g\<lparr>daBackend := d\<rparr>)) (NewGasPriceOracle cfg b)
   \<and> (NewGasPriceOracle cfg b = (cfg', Ok g) \<longrightarrow>
        daBackend g = fst (NewBVMEigenDataLayrFee b)
      \<and> NewGasPriceOracle cfg (b\<lparr>NewBVMEigenDataLayrFee := (d, e)\<rparr>)
          = (cfg', Ok (g\<lparr>daBackend := d\<rparr>)))"
proof -
  have A: "NewGasPriceOracle cfg (b\<lparr>NewBVMEigenDataLayrFee := (d, e)\<rparr>)
     = apsnd (map_outcome (\<lambda>g. g\<lparr>daBackend := d\<rparr>)) (NewGasPriceOracle cfg b)"
    unfolding NewGasPriceOracle_staged connect_daFee
    by (cases "connect b") (simp_all add: from_chain_id_check_daFee)
  have B: "daBackend g = fst (NewBVMEigenDataLayrFee b)"
    if h: "NewGasPriceOracle cfg b = (cfg', Ok g)"
  proof -
    from NewGasPriceOracle_Ok[OF h] obtain c where
      c: "connect b = Inr c" and "from_chain_id_check cfg b c = (cfg', Ok g)" by blast
    from from_chain_id_check_Ok[OF this(2)] obtain id2 id1 where
      "from_private_key_check (cfg\<lparr>cfg_l2ChainID := id2, cfg_l1ChainID := id1\<rparr>) b c = (cfg', Ok g)"
      by blast
    from from_private_key_check_Ok[OF this] have d: "daBackend g = conn_daFeeClient c" by simp
    have "connect (b\<lparr>NewBVMEigenDataLayrFee := (fst (NewBVMEigenDataLayrFee b), None)\<rparr>)
            = Inr (c\<lparr>conn_daFeeClient := fst (NewBVMEigenDataLayrFee b)\<rparr>)"
      unfolding connect_daFee c by simp
    moreover have "connect (b\<lparr>NewBVMEigenDataLayrFee := (fst (NewBVMEigenDataLayrFee b), None)\<rparr>)
            = connect b"
      unfolding connect_def by (simp add: Let_def split: option.split sum.split)
    ultimately have "c = c\<lparr>conn_daFeeClient := fst (NewBVMEigenDataLayrFee b)\<rparr>"
      using c by simp
    then have "conn_daFeeClient c = fst (NewBVMEigenDataLayrFee b)"
      by (metis connected.select_convs(3) connected.surjective connected.update_convs(3))
    with d show ?thesis by simp
  qed
  from A B show ?thesis by simp
qed

theorem daFee_binding_error_discarded_witness:
  "NewGasPriceOracle cfg_unset backends_da_failed = (cfg_adopted, Ok (oracle0\<lparr>daBackend := None\<rparr>))
   \<and> snd (NewBVMEigenDataLayrFee backends_da_failed) = Some (External ''no contract code'')"
  using daFee_binding_error_discarded[where cfg = cfg_unset and b = good_backends and d = None
      and e = "Some (External ''no contract code'')" and cfg' = cfg_adopted and g = oracle0]
    NewGasPriceOracle_good_backends
  by (simp add: backends_da_failed_def)

subsection \<open>The loops\<close>

lemma for_select_TimerC:
  assumes "\<And>r s. iter (TimerC r) s = Looping (s\<lparr>trace := trace s @ f r\<rparr>)"
  shows "for_select iter (map TimerC rs) s = Looping (s\<lparr>trace := trace s @ concat (map f rs)\<rparr>)"
  by (induction rs arbitrary: s) (simp_all add: assms)

lemma Loop_iter_TimerC:
  "Loop_iter (TimerC r) s =
     Looping (s\<lparr>trace := trace s @ tick_log go_Loop ''cannot update gas price'' r\<rparr>)"
  by (simp add: Loop_iter_def tick_log_def)

lemma BaseFeeLoop_iter_TimerC:
  "BaseFeeLoop_iter (TimerC r) s =
     Looping (s\<lparr>trace := trace s @ tick_log go_BaseFeeLoop ''cannot update l1 base fee'' r\<rparr>)"
  by (simp add: BaseFeeLoop_iter_def tick_log_def)

lemma DaFeeLoop_iter_TimerC:
  "DaFeeLoop_iter (TimerC r) s =
     Looping (s\<lparr>trace := trace s @ tick_log go_DaFeeLoop ''cannot update da fee'' r\<rparr>)"
  by (simp add: DaFeeLoop_iter_def tick_log_def)

lemma count_tick_logs:
  "count_list (concat (map (tick_log t msg) rs)) (CallUpdate t) = length rs"
  by (induction rs) (auto simp: tick_log_def split: option.split)

lemma tick_log_fun:
  "tick_log t msg =
     (\<lambda>r. CallUpdate t # (case r of Some e \<Rightarrow> [LogError msg e] | None \<Rightarrow> []))"
  by (rule ext) (simp add: tick_log_def)

lemma Duration_of_seconds_exact:
  assumes "n \<le> 9223372036"
  shows "Duration_of_seconds n = int n * 1000000000"
proof -
  have w: "(word_of_nat n :: 64 word) * 1000000000 = word_of_int (int n * 1000000000)"
    by simp
  have r: "- (2 ^ 63) \<le> int n * 1000000000" "int n * 1000000000 < 2 ^ 63"
    using assms by simp_all
  have "sint (word_of_int (int n * 1000000000) :: 64 word)
          = signed_take_bit 63 (int n * 1000000000)"
    by (simp only: sint_sbintrunc') simp
  also have "\<dots> = int n * 1000000000"
    using r by (intro signed_take_bit_int_eq_self) simp_all
  finally show ?thesis
    unfolding Duration_of_seconds_def w .
qed

lemma Duration_of_seconds_wraps: "Duration_of_seconds 9223372037 = - 9223372036709551616"
  by (simp add: Duration_of_seconds_def)

lemma Loop_ticks:
  assumes "0 < Duration_of_seconds (epochLengthSeconds (config (gpo s)))"
  shows "Loop (map TimerC rs) s =
     Looping (s\<lparr>trace := trace s @
       concat (map (tick_log go_Loop ''cannot update gas price'') rs)\<rparr>)"
  using assms
  by (simp add: Loop_def for_select_TimerC[of Loop_iter, OF Loop_iter_TimerC])

lemma BaseFeeLoop_ticks:
  assumes "0 < Duration_of_seconds (l1BaseFeeEpochLengthSeconds (config (gpo s)))"
  shows "BaseFeeLoop (Inr updateBaseFee) (map TimerC rs) s =
     Looping (s\<lparr>trace := trace s @
       concat (map (tick_log go_BaseFeeLoop ''cannot update l1 base fee'') rs)\<rparr>)"
  using assms
  by (simp add: BaseFeeLoop_def for_select_TimerC[of BaseFeeLoop_iter, OF BaseFeeLoop_iter_TimerC])

lemma DaFeeLoop_ticks:
  assumes "0 < Duration_of_seconds (daFeeEpochLengthSeconds (config (gpo s)))"
  shows "DaFeeLoop (Inr updateDaFee) (map TimerC rs) s =
     Looping (s\<lparr>trace := trace s @
       concat (map (tick_log go_DaFeeLoop ''cannot update da fee'') rs)\<rparr>)"
  using assms
  by (simp add: DaFeeLoop_def for_select_TimerC[of DaFeeLoop_iter, OF DaFeeLoop_iter_TimerC])

text \<open>
  C8. In each of the three loops, a tick whose update step returns an error appends the
  call and one error line to the trace, leaves the oracle as it is, and the loop goes
  on. Once its ticker is made (the period, as the code computes it, is positive), a
  loop run along any schedule of ticks, whatever their update steps return, is still
  looping at the end with the shared oracle unchanged, and its trace has grown by
  exactly this, tick after tick: the call of the update step, followed by the error
  line of that loop when the step returned an error. So the update step has been
  called once per tick.
\<close>

theorem tick_error_logged_and_loop_continues:
  "Loop_iter (TimerC (Some err)) s =
     Looping (s\<lparr>trace := trace s @
       [CallUpdate go_Loop, LogError ''cannot update gas price'' err]\<rparr>)
   \<and> BaseFeeLoop_iter (TimerC (Some err)) s =
     Looping (s\<lparr>trace := trace s @
       [CallUpdate go_BaseFeeLoop, LogError ''cannot update l1 base fee'' err]\<rparr>)
   \<and> DaFeeLoop_iter (TimerC (Some err)) s =
     Looping (s\<lparr>trace := trace s @
       [CallUpdate go_DaFeeLoop, LogError ''cannot update da fee'' err]\<rparr>)
   \<and> (0 < Duration_of_seconds (epochLengthSeconds (config (gpo s))) \<longrightarrow>
        Loop (map TimerC rs) s =
          Looping (s\<lparr>trace := trace s @ concat (map (\<lambda>r. CallUpdate go_Loop #
            (case r of Some e \<Rightarrow> [LogError ''cannot update gas price'' e] | None \<Rightarrow> [])) rs)\<rparr>)
      \<and> (\<exists>s'. Loop (map TimerC rs) s = Looping s' \<and> gpo s' = gpo s
           \<and> count_list (trace s') (CallUpdate go_Loop)
               = count_list (trace s) (CallUpdate go_Loop) + length rs))
   \<and> (0 < Duration_of_seconds (l1BaseFeeEpochLengthSeconds (config (gpo s))) \<longrightarrow>
        BaseFeeLoop (Inr updateBaseFee) (map TimerC rs) s =
          Looping (s\<lparr>trace := trace s @ concat (map (\<lambda>r. CallUpdate go_BaseFeeLoop #
            (case r of Some e \<Rightarrow> [LogError ''cannot update l1 base fee'' e] | None \<Rightarrow> [])) rs)\<rparr>)
      \<and> (\<exists>s'. BaseFeeLoop (Inr updateBaseFee) (map TimerC rs) s = Looping s' \<and> gpo s' = gpo s
           \<and> count_list (trace s') (CallUpdate go_BaseFeeLoop)
               = count_list (trace s) (CallUpdate go_BaseFeeLoop) + length rs))
   \<and> (0 < Duration_of_seconds (daFeeEpochLengthSeconds (config (gpo s))) \<longrightarrow>
        DaFeeLoop (Inr updateDaFee) (map TimerC rs) s =
          Looping (s\<lparr>trace := trace s @ concat (map (\<lambda>r. CallUpdate go_DaFeeLoop #
            (case r of Some e \<Rightarrow> [LogError ''cannot update da fee'' e] | None \<Rightarrow> [])) rs)\<rparr>)
      \<and> (\<exists>s'. DaFeeLoop (Inr updateDaFee) (map TimerC rs) s = Looping s' \<and> gpo s' = gpo s
           \<and> count_list (trace s') (CallUpdate go_DaFeeLoop)
               = count_list (trace s) (CallUpdate go_DaFeeLoop) + length rs))"
proof (intro conjI impI)
  show "Loop_iter (TimerC (Some err)) s =
     Looping (s\<lparr>trace := trace s @
       [CallUpdate go_Loop, LogError ''cannot update gas price'' err]\<rparr>)"
    by (simp add: Loop_iter_def)
  show "BaseFeeLoop_iter (TimerC (Some err)) s =
     Looping (s\<lparr>trace := trace s @
       [CallUpdate go_BaseFeeLoop, LogError ''cannot update l1 base fee'' err]\<rparr>)"
    by (simp add: BaseFeeLoop_iter_def)
  show "DaFeeLoop_iter (TimerC (Some err)) s =
     Looping (s\<lparr>trace := trace s @
       [CallUpdate go_DaFeeLoop, LogError ''cannot update da fee'' err]\<rparr>)"
    by (simp add: DaFeeLoop_iter_def)
next
  assume p: "0 < Duration_of_seconds (epochLengthSeconds (config (gpo s)))"
  from Loop_ticks[OF p, of rs]
  show "Loop (map TimerC rs) s =
          Looping (s\<lparr>trace := trace s @ concat (map (\<lambda>r. CallUpdate go_Loop #
            (case r of Some e \<Rightarrow> [LogError ''cannot update gas price'' e] | None \<Rightarrow> [])) rs)\<rparr>)"
    by (simp only: tick_log_fun)
  from Loop_ticks[OF p, of rs]
  show "\<exists>s'. Loop (map TimerC rs) s = Looping s' \<and> gpo s' = gpo s
           \<and> count_list (trace s') (CallUpdate go_Loop)
               = count_list (trace s) (CallUpdate go_Loop) + length rs"
    by (simp add: count_tick_logs)
next
  assume p: "0 < Duration_of_seconds (l1BaseFeeEpochLengthSeconds (config (gpo s)))"
  from BaseFeeLoop_ticks[OF p, of updateBaseFee rs]
  show "BaseFeeLoop (Inr updateBaseFee) (map TimerC rs) s =
          Looping (s\<lparr>trace := trace s @ concat (map (\<lambda>r. CallUpdate go_BaseFeeLoop #
            (case r of Some e \<Rightarrow> [LogError ''cannot update l1 base fee'' e] | None \<Rightarrow> [])) rs)\<rparr>)"
    by (simp only: tick_log_fun)
  from BaseFeeLoop_ticks[OF p, of updateBaseFee rs]
  show "\<exists>s'. BaseFeeLoop (Inr updateBaseFee) (map TimerC rs) s = Looping s' \<and> gpo s' = gpo s
           \<and> count_list (trace s') (CallUpdate go_BaseFeeLoop)
               = count_list (trace s) (CallUpdate go_BaseFeeLoop) + length rs"
    by (simp add: count_tick_logs)
next
  assume p: "0 < Duration_of_seconds (daFeeEpochLengthSeconds (config (gpo s)))"
  from DaFeeLoop_ticks[OF p, of updateDaFee rs]
  show "DaFeeLoop (Inr updateDaFee) (map TimerC rs) s =
          Looping (s\<lparr>trace := trace s @ concat (map (\<lambda>r. CallUpdate go_DaFeeLoop #
            (case r of Some e \<Rightarrow> [LogError ''cannot update da fee'' e] | None \<Rightarrow> [])) rs)\<rparr>)"
    by (simp only: tick_log_fun)
  from DaFeeLoop_ticks[OF p, of updateDaFee rs]
  show "\<exists>s'. DaFeeLoop (Inr updateDaFee) (map TimerC rs) s = Looping s' \<and> gpo s' = gpo s
           \<and> count_list (trace s') (CallUpdate go_DaFeeLoop)
               = count_list (trace s) (CallUpdate go_DaFeeLoop) + length rs"
    by (simp add: count_tick_logs)
qed

theorem tick_error_logged_and_loop_continues_witness:
  "Update (Inr 1000) (Some rpc_down) (Inr 1000)
     = Some (Errorf_w ''cannot update gas price: %w'' [] rpc_down)
   \<and> Loop [TimerC (Some rpc_down), TimerC None] \<lparr>gpo = oracle0, trace = []\<rparr>
     = Looping \<lparr>gpo = oracle0, trace = [CallUpdate go_Loop,
         LogError ''cannot update gas price'' rpc_down, CallUpdate go_Loop]\<rparr>
   \<and> BaseFeeLoop (Inr 9) [TimerC (Some rpc_down), TimerC None] \<lparr>gpo = oracle0, trace = []\<rparr>
     = Looping \<lparr>gpo = oracle0, trace = [CallUpdate go_BaseFeeLoop,
         LogError ''cannot update l1 base fee'' rpc_down, CallUpdate go_BaseFeeLoop]\<rparr>
   \<and> DaFeeLoop (Inr 10) [TimerC (Some rpc_down), TimerC None] \<lparr>gpo = oracle0, trace = []\<rparr>
     = Looping \<lparr>gpo = oracle0, trace = [CallUpdate go_DaFeeLoop,
         LogError ''cannot update da fee'' rpc_down, CallUpdate go_DaFeeLoop]\<rparr>"
proof -
  let ?s = "\<lparr>gpo = oracle0, trace = []\<rparr>"
  have p: "0 < Duration_of_seconds (epochLengthSeconds (config (gpo ?s)))"
      "0 < Duration_of_seconds (l1BaseFeeEpochLengthSeconds (config (gpo ?s)))"
      "0 < Duration_of_seconds (daFeeEpochLengthSeconds (config (gpo ?s)))"
    by (simp_all add: oracle0_def cfg_adopted_def cfg_unset_def Duration_of_seconds_exact)
  note t = tick_error_logged_and_loop_continues[where s = ?s and err = rpc_down
      and rs = "[Some rpc_down, None]" and updateBaseFee = 9 and updateDaFee = 10]
  have "Loop [TimerC (Some rpc_down), TimerC None] ?s
     = Looping \<lparr>gpo = oracle0, trace = [CallUpdate go_Loop,
         LogError ''cannot update gas price'' rpc_down, CallUpdate go_Loop]\<rparr>"
    using t p(1) by simp
  moreover have "BaseFeeLoop (Inr 9) [TimerC (Some rpc_down), TimerC None] ?s
     = Looping \<lparr>gpo = oracle0, trace = [CallUpdate go_BaseFeeLoop,
         LogError ''cannot update l1 base fee'' rpc_down, CallUpdate go_BaseFeeLoop]\<rparr>"
    using t p(2) by simp
  moreover have "DaFeeLoop (Inr 10) [TimerC (Some rpc_down), TimerC None] ?s
     = Looping \<lparr>gpo = oracle0, trace = [CallUpdate go_DaFeeLoop,
         LogError ''cannot update da fee'' rpc_down, CallUpdate go_DaFeeLoop]\<rparr>"
    using t p(3) by simp
  moreover have "Update (Inr 1000) (Some rpc_down) (Inr 1000)
     = Some (Errorf_w ''cannot update gas price: %w'' [] rpc_down)"
    by (simp add: Update_def)
  ultimately show ?thesis by blast
qed

text \<open>
  C7. When \<^verbatim>\<open>wrapUpdateBaseFee\<close> or \<^verbatim>\<open>wrapUpdateDaFee\<close> returns an error, the loop panics
  before its first iteration, whatever the schedule, so that no tick is served and
  nothing is logged. Once the ticker is made (the period, as the code computes it, is
  positive) the panic carries that error; with a period that is not positive the loop
  has already panicked in \<^verbatim>\<open>time.NewTicker\<close>.
\<close>

theorem update_function_failure_is_fatal:
  "(\<exists>p. BaseFeeLoop (Inl err) schedule s = Crashed p)
   \<and> (\<exists>p. DaFeeLoop (Inl err) schedule s = Crashed p)
   \<and> (0 < Duration_of_seconds (l1BaseFeeEpochLengthSeconds (config (gpo s))) \<longrightarrow>
        BaseFeeLoop (Inl err) schedule s = Crashed (PanicError err))
   \<and> (0 < Duration_of_seconds (daFeeEpochLengthSeconds (config (gpo s))) \<longrightarrow>
        DaFeeLoop (Inl err) schedule s = Crashed (PanicError err))
   \<and> (Duration_of_seconds (l1BaseFeeEpochLengthSeconds (config (gpo s))) \<le> 0 \<longrightarrow>
        BaseFeeLoop (Inl err) schedule s = Crashed NonPositiveTickerInterval)
   \<and> (Duration_of_seconds (daFeeEpochLengthSeconds (config (gpo s))) \<le> 0 \<longrightarrow>
        DaFeeLoop (Inl err) schedule s = Crashed NonPositiveTickerInterval)"
  by (simp add: BaseFeeLoop_def DaFeeLoop_def)

theorem update_function_failure_is_fatal_witness:
  "BaseFeeLoop (Inl (External ''no code at address'')) [TimerC None, TimerC None]
     \<lparr>gpo = oracle0, trace = []\<rparr> = Crashed (PanicError (External ''no code at address''))
   \<and> DaFeeLoop (Inl (External ''no code at address'')) [TimerC None, TimerC None]
     \<lparr>gpo = oracle0, trace = []\<rparr> = Crashed (PanicError (External ''no code at address''))
   \<and> BaseFeeLoop (Inl (External ''no code at address'')) [TimerC None] long_epochs
       = Crashed NonPositiveTickerInterval
   \<and> DaFeeLoop (Inl (External ''no code at address'')) [TimerC None] long_epochs
       = Crashed NonPositiveTickerInterval"
proof -
  let ?s = "\<lparr>gpo = oracle0, trace = []\<rparr>"
  have p: "0 < Duration_of_seconds (l1BaseFeeEpochLengthSeconds (config (gpo ?s)))"
      "0 < Duration_of_seconds (daFeeEpochLengthSeconds (config (gpo ?s)))"
    by (simp_all add: oracle0_def cfg_adopted_def cfg_unset_def Duration_of_seconds_exact)
  have q: "Duration_of_seconds (l1BaseFeeEpochLengthSeconds (config (gpo long_epochs))) \<le> 0"
      "Duration_of_seconds (daFeeEpochLengthSeconds (config (gpo long_epochs))) \<le> 0"
    by (simp_all add: long_epochs_def Duration_of_seconds_wraps)
  from update_function_failure_is_fatal[where s = ?s and err = "External ''no code at address''"
      and schedule = "[TimerC None, TimerC None]"] p
  have "BaseFeeLoop (Inl (External ''no code at address'')) [TimerC None, TimerC None] ?s
          = Crashed (PanicError (External ''no code at address''))
      \<and> DaFeeLoop (Inl (External ''no code at address'')) [TimerC None, TimerC None] ?s
          = Crashed (PanicError (External ''no code at address''))"
    by blast
  moreover from update_function_failure_is_fatal[where s = long_epochs
      and err = "External ''no code at address''" and schedule = "[TimerC None]"] q
  have "BaseFeeLoop (Inl (External ''no code at address'')) [TimerC None] long_epochs
          = Crashed NonPositiveTickerInterval
      \<and> DaFeeLoop (Inl (External ''no code at address'')) [TimerC None] long_epochs
          = Crashed NonPositiveTickerInterval"
    by blast
  ultimately show ?thesis by blast
qed

lemma iter_CtxDone:
  "Done_ready (ctx (gpo s)) \<Longrightarrow> stop (gpo s) = Open \<Longrightarrow>
     Loop_iter CtxDone s = Looping (s\<lparr>gpo := (gpo s)\<lparr>stop := Closed\<rparr>\<rparr>)
   \<and> BaseFeeLoop_iter CtxDone s = Looping (s\<lparr>gpo := (gpo s)\<lparr>stop := Closed\<rparr>\<rparr>)
   \<and> DaFeeLoop_iter CtxDone s = Looping (s\<lparr>gpo := (gpo s)\<lparr>stop := Closed\<rparr>\<rparr>)"
  "Done_ready (ctx (gpo s)) \<Longrightarrow> stop (gpo s) = Closed \<Longrightarrow>
     Loop_iter CtxDone s = Crashed CloseOfClosedChannel
   \<and> BaseFeeLoop_iter CtxDone s = Crashed CloseOfClosedChannel
   \<and> DaFeeLoop_iter CtxDone s = Crashed CloseOfClosedChannel"
  by (simp_all add: Loop_iter_def BaseFeeLoop_iter_def DaFeeLoop_iter_def Stop_def)

text \<open>
  C9. \<^verbatim>\<open>Stop\<close> on an oracle that \<^verbatim>\<open>Stop\<close> has returned panics with the close of a closed
  channel, as it does on any oracle whose \<^verbatim>\<open>stop\<close> channel is closed. Once the context's
  \<^verbatim>\<open>Done\<close> channel is closed, the cancellation case of each loop calls \<^verbatim>\<open>Stop\<close> and stays in
  the loop, so the second time the case is taken, at the latest, the loop panics.
\<close>

theorem Stop_twice_panics:
  "(Stop g = Inr g' \<longrightarrow> stop g' = Closed \<and> Stop g' = Inl CloseOfClosedChannel)
   \<and> (stop g = Closed \<longrightarrow> Stop g = Inl CloseOfClosedChannel)
   \<and> (Done_ready (ctx (gpo s)) \<longrightarrow>
        (stop (gpo s) = Open \<longrightarrow>
           Loop_iter CtxDone s = Looping (s\<lparr>gpo := (gpo s)\<lparr>stop := Closed\<rparr>\<rparr>)
         \<and> BaseFeeLoop_iter CtxDone s = Looping (s\<lparr>gpo := (gpo s)\<lparr>stop := Closed\<rparr>\<rparr>)
         \<and> DaFeeLoop_iter CtxDone s = Looping (s\<lparr>gpo := (gpo s)\<lparr>stop := Closed\<rparr>\<rparr>))
      \<and> (stop (gpo s) = Closed \<longrightarrow>
           Loop_iter CtxDone s = Crashed CloseOfClosedChannel
         \<and> BaseFeeLoop_iter CtxDone s = Crashed CloseOfClosedChannel
         \<and> DaFeeLoop_iter CtxDone s = Crashed CloseOfClosedChannel)
      \<and> for_select Loop_iter (CtxDone # CtxDone # cs) s = Crashed CloseOfClosedChannel
      \<and> for_select BaseFeeLoop_iter (CtxDone # CtxDone # cs) s = Crashed CloseOfClosedChannel
      \<and> for_select DaFeeLoop_iter (CtxDone # CtxDone # cs) s = Crashed CloseOfClosedChannel)"
proof (intro conjI impI)
  assume "Stop g = Inr g'"
  then have "g' = g\<lparr>stop := Closed\<rparr>" by (cases "stop g") (simp_all add: Stop_def)
  then show "stop g' = Closed" "Stop g' = Inl CloseOfClosedChannel" by (simp_all add: Stop_def)
next
  assume "stop g = Closed" then show "Stop g = Inl CloseOfClosedChannel" by (simp add: Stop_def)
next
  assume d: "Done_ready (ctx (gpo s))"
  { assume o: "stop (gpo s) = Open"
    from iter_CtxDone(1)[OF d o]
    show "Loop_iter CtxDone s = Looping (s\<lparr>gpo := (gpo s)\<lparr>stop := Closed\<rparr>\<rparr>)"
      "BaseFeeLoop_iter CtxDone s = Looping (s\<lparr>gpo := (gpo s)\<lparr>stop := Closed\<rparr>\<rparr>)"
      "DaFeeLoop_iter CtxDone s = Looping (s\<lparr>gpo := (gpo s)\<lparr>stop := Closed\<rparr>\<rparr>)"
      by simp_all }
  { assume c: "stop (gpo s) = Closed"
    from iter_CtxDone(2)[OF d c]
    show "Loop_iter CtxDone s = Crashed CloseOfClosedChannel"
      "BaseFeeLoop_iter CtxDone s = Crashed CloseOfClosedChannel"
      "DaFeeLoop_iter CtxDone s = Crashed CloseOfClosedChannel"
      by simp_all }
  let ?s = "s\<lparr>gpo := (gpo s)\<lparr>stop := Closed\<rparr>\<rparr>"
  have d': "Done_ready (ctx (gpo ?s))" "stop (gpo ?s) = Closed" using d by simp_all
  show "for_select Loop_iter (CtxDone # CtxDone # cs) s = Crashed CloseOfClosedChannel"
    using iter_CtxDone(1)[OF d] iter_CtxDone(2)[OF d] iter_CtxDone(2)[OF d']
    by (cases "stop (gpo s)") simp_all
  show "for_select BaseFeeLoop_iter (CtxDone # CtxDone # cs) s = Crashed CloseOfClosedChannel"
    using iter_CtxDone(1)[OF d] iter_CtxDone(2)[OF d] iter_CtxDone(2)[OF d']
    by (cases "stop (gpo s)") simp_all
  show "for_select DaFeeLoop_iter (CtxDone # CtxDone # cs) s = Crashed CloseOfClosedChannel"
    using iter_CtxDone(1)[OF d] iter_CtxDone(2)[OF d] iter_CtxDone(2)[OF d']
    by (cases "stop (gpo s)") simp_all
qed

theorem Stop_twice_panics_witness:
  "Stop oracle0 = Inr (oracle0\<lparr>stop := Closed\<rparr>)
   \<and> Stop (oracle0\<lparr>stop := Closed\<rparr>) = Inl CloseOfClosedChannel
   \<and> Loop_iter CtxDone cancelled0 = Looping (cancelled0\<lparr>gpo := (gpo cancelled0)\<lparr>stop := Closed\<rparr>\<rparr>)
   \<and> for_select Loop_iter [CtxDone, CtxDone, TimerC None] cancelled0 = Crashed CloseOfClosedChannel"
proof -
  have a: "Stop oracle0 = Inr (oracle0\<lparr>stop := Closed\<rparr>)" by (simp add: Stop_def oracle0_def)
  have d: "Done_ready (ctx (gpo cancelled0))" "stop (gpo cancelled0) = Open"
    by (simp_all add: cancelled0_def oracle0_def)
  from Stop_twice_panics[where g = oracle0 and g' = "oracle0\<lparr>stop := Closed\<rparr>"
      and s = cancelled0 and cs = "[TimerC None]"] a d
  show ?thesis by blast
qed

text \<open>
  C2 fails on the code. After \<^verbatim>\<open>Stop()\<close> on the oracle that \<^verbatim>\<open>NewGasPriceOracle\<close> built,
  \<^verbatim>\<open>Wait()\<close> returns, and each of the three loops serves every later tick: its \<^verbatim>\<open>select\<close> has no
  case for \<^verbatim>\<open>g.stop\<close>, and the \<^verbatim>\<open>Done\<close> channel of \<^verbatim>\<open>context.Background()\<close> is never ready.
\<close>

theorem loops_keep_ticking_after_Stop:
  "NewGasPriceOracle cfg_unset good_backends = (cfg_adopted, Ok oracle0)
   \<and> Stop oracle0 = Inr (oracle0\<lparr>stop := Closed\<rparr>)
   \<and> Wait (oracle0\<lparr>stop := Closed\<rparr>) = Some ()
   \<and> Loop [TimerC None, CtxDone, TimerC (Some rpc_down), TimerC None] stopped0
       = Looping (stopped0\<lparr>trace := [CallUpdate go_Loop, CallUpdate go_Loop,
           LogError ''cannot update gas price'' rpc_down, CallUpdate go_Loop]\<rparr>)
   \<and> BaseFeeLoop (Inr 9) [TimerC None, CtxDone, TimerC None] stopped0
       = Looping (stopped0\<lparr>trace := [CallUpdate go_BaseFeeLoop, CallUpdate go_BaseFeeLoop]\<rparr>)
   \<and> DaFeeLoop (Inr 10) [TimerC None, CtxDone, TimerC None] stopped0
       = Looping (stopped0\<lparr>trace := [CallUpdate go_DaFeeLoop, CallUpdate go_DaFeeLoop]\<rparr>)"
proof -
  have "Stop oracle0 = Inr (oracle0\<lparr>stop := Closed\<rparr>)
   \<and> Wait (oracle0\<lparr>stop := Closed\<rparr>) = Some ()
   \<and> Loop [TimerC None, CtxDone, TimerC (Some rpc_down), TimerC None] stopped0
       = Looping (stopped0\<lparr>trace := [CallUpdate go_Loop, CallUpdate go_Loop,
           LogError ''cannot update gas price'' rpc_down, CallUpdate go_Loop]\<rparr>)
   \<and> BaseFeeLoop (Inr 9) [TimerC None, CtxDone, TimerC None] stopped0
       = Looping (stopped0\<lparr>trace := [CallUpdate go_BaseFeeLoop, CallUpdate go_BaseFeeLoop]\<rparr>)
   \<and> DaFeeLoop (Inr 10) [TimerC None, CtxDone, TimerC None] stopped0
       = Looping (stopped0\<lparr>trace := [CallUpdate go_DaFeeLoop, CallUpdate go_DaFeeLoop]\<rparr>)"
    by (simp add: Stop_def Wait_def Loop_def BaseFeeLoop_def DaFeeLoop_def Loop_iter_def
        BaseFeeLoop_iter_def DaFeeLoop_iter_def stopped0_def oracle0_def cfg_adopted_def
        cfg_unset_def Duration_of_seconds_exact)
  with NewGasPriceOracle_good_backends show ?thesis by (rule conjI)
qed

subsection \<open>The L2 fee controller\<close>

lemma clampPercentChange_bound:
  "0 \<le> m \<Longrightarrow> \<bar>clampPercentChange m raw\<bar> \<le> m"
  by (simp add: clampPercentChange_def abs_mult abs_sgn_eq min_def)

lemma appliedPercentChange_scenario:
  "appliedPercentChange
     \<lparr>averageBlockGasLimitPerEpoch = 100, maxPercentChangePerEpoch = 10, floorPrice = fl\<rparr>
     \<lparr>latestBlockNumber = latest, numberOfBlocksInWindow = 10, actualGasUsed = 2000,
      convertFloor = conv, submit = None\<rparr> = Some 10"
  by (simp add: appliedPercentChange_def loadRatio_def targetGasForWindow_def
      rawPercentChange_def clampPercentChange_def)

text \<open>
  C1. With a bound that is not negative, the percent change the controller applies to
  the current price (step 6) has a magnitude of at most \<^verbatim>\<open>maxPercentChangePerEpoch\<close>,
  whatever the tick reads, and a percent change exists whenever the window is empty or
  the average block gas limit is positive. In the scenario (price 1000, average limit
  100, 10 blocks, 2000 gas used, bound 10%) the applied change is 10% and the tick
  leaves the price at 1100, provided the converted floor is at most 1100; the unclamped
  change would give 2000. The floor of step 7 may lift the price further: it is no part
  of the percent change.
\<close>

theorem percent_change_clamped:
  assumes "0 \<le> maxPercentChangePerEpoch cfg"
  shows "(\<forall>percent. appliedPercentChange cfg rd = Some percent \<longrightarrow>
            \<bar>percent\<bar> \<le> maxPercentChangePerEpoch cfg)
       \<and> (numberOfBlocksInWindow rd = 0 \<or> 0 < averageBlockGasLimitPerEpoch cfg \<longrightarrow>
            appliedPercentChange cfg rd \<noteq> None)
       \<and> (conv fl \<le> 1100 \<longrightarrow>
            tick
              \<lparr>averageBlockGasLimitPerEpoch = 100, maxPercentChangePerEpoch = 10, floorPrice = fl\<rparr>
              \<lparr>startBlockNumber = start, currentPrice = 1000\<rparr>
              \<lparr>latestBlockNumber = latest, numberOfBlocksInWindow = 10, actualGasUsed = 2000,
               convertFloor = conv, submit = None\<rparr>
            = Inr \<lparr>startBlockNumber = latest, currentPrice = 1100\<rparr>)
       \<and> appliedPercentChange
            \<lparr>averageBlockGasLimitPerEpoch = 100, maxPercentChangePerEpoch = 10, floorPrice = fl\<rparr>
            \<lparr>latestBlockNumber = latest, numberOfBlocksInWindow = 10, actualGasUsed = 2000,
             convertFloor = conv, submit = None\<rparr> = Some 10
       \<and> candidatePrice 1000 (rawPercentChange (2000 / 1000)) = 2000"
proof (intro conjI allI impI)
  fix percent assume "appliedPercentChange cfg rd = Some percent"
  then show "\<bar>percent\<bar> \<le> maxPercentChangePerEpoch cfg"
    using clampPercentChange_bound[OF assms]
    by (auto simp: appliedPercentChange_def split: option.splits)
next
  assume "numberOfBlocksInWindow rd = 0 \<or> 0 < averageBlockGasLimitPerEpoch cfg"
  then show "appliedPercentChange cfg rd \<noteq> None"
    by (auto simp: appliedPercentChange_def loadRatio_def targetGasForWindow_def)
next
  assume "conv fl \<le> 1100"
  then show "tick
              \<lparr>averageBlockGasLimitPerEpoch = 100, maxPercentChangePerEpoch = 10, floorPrice = fl\<rparr>
              \<lparr>startBlockNumber = start, currentPrice = 1000\<rparr>
              \<lparr>latestBlockNumber = latest, numberOfBlocksInWindow = 10, actualGasUsed = 2000,
               convertFloor = conv, submit = None\<rparr>
            = Inr \<lparr>startBlockNumber = latest, currentPrice = 1100\<rparr>"
    by (simp add: tick_def appliedPercentChange_scenario candidatePrice_def Let_def max_def)
next
  show "appliedPercentChange
            \<lparr>averageBlockGasLimitPerEpoch = 100, maxPercentChangePerEpoch = 10, floorPrice = fl\<rparr>
            \<lparr>latestBlockNumber = latest, numberOfBlocksInWindow = 10, actualGasUsed = 2000,
             convertFloor = conv, submit = None\<rparr> = Some 10"
    by (rule appliedPercentChange_scenario)
next
  show "candidatePrice 1000 (rawPercentChange (2000 / 1000)) = 2000"
    by (simp add: candidatePrice_def rawPercentChange_def)
qed

theorem percent_change_clamped_witness:
  "appliedPercentChange fee_cfg0 reading_idle = Some (- 10)
   \<and> \<bar>- 10 :: rat\<bar> \<le> maxPercentChangePerEpoch fee_cfg0
   \<and> tick fee_cfg0 fee_state0 reading_busy = Inr \<lparr>startBlockNumber = 50, currentPrice = 1100\<rparr>"
proof -
  have h: "0 \<le> maxPercentChangePerEpoch fee_cfg0" by (simp add: fee_cfg0_def)
  have v: "appliedPercentChange fee_cfg0 reading_idle = Some (- 10)"
    by (simp add: appliedPercentChange_def loadRatio_def targetGasForWindow_def
        rawPercentChange_def clampPercentChange_def fee_cfg0_def reading_idle_def)
  have f: "(\<lambda>p::rat. p * 2) 1 \<le> 1100" by simp
  from percent_change_clamped[OF h, where rd = reading_idle and conv = "\<lambda>p. p * 2" and fl = 1
      and latest = 50 and start = 40] v f
  have "\<bar>- 10 :: rat\<bar> \<le> maxPercentChangePerEpoch fee_cfg0
    \<and> tick \<lparr>averageBlockGasLimitPerEpoch = 100, maxPercentChangePerEpoch = 10, floorPrice = 1\<rparr>
              \<lparr>startBlockNumber = 40, currentPrice = 1000\<rparr>
              \<lparr>latestBlockNumber = 50, numberOfBlocksInWindow = 10, actualGasUsed = 2000,
               convertFloor = (\<lambda>p. p * 2), submit = None\<rparr>
            = Inr \<lparr>startBlockNumber = 50, currentPrice = 1100\<rparr>"
    by blast
  with v show ?thesis by (simp add: fee_cfg0_def fee_state0_def reading_busy_def)
qed

lemma tick_floor:
  "tick cfg s rd = Inr s' \<Longrightarrow> convertFloor rd (floorPrice cfg) \<le> currentPrice s'"
  by (auto simp: tick_def Let_def split: option.splits if_splits)

lemma run_ticks_floor:
  "(case fl of None \<Rightarrow> True | Some f \<Rightarrow> f \<le> currentPrice s) \<Longrightarrow>
   run_ticks cfg (s, fl) rds = (s', Some f') \<Longrightarrow> f' \<le> currentPrice s'"
proof (induction rds arbitrary: s fl)
  case Nil
  then show ?case by simp
next
  case (Cons rd rds)
  show ?case
  proof (cases "tick cfg s rd")
    case (Inl e)
    with Cons show ?thesis by simp
  next
    case (Inr s1)
    from tick_floor[OF Inr]
    have "case Some (convertFloor rd (floorPrice cfg)) of None \<Rightarrow> True
          | Some f \<Rightarrow> f \<le> currentPrice s1" by simp
    from Cons.IH[OF this] Cons.prems(2) Inr show ?thesis by simp
  qed
qed

text \<open>
  C5. A tick that succeeds leaves a price at least the floor price converted at that
  tick's rate. Along any run of ticks, once one has succeeded, the price is at least
  the floor as converted by the latest successful tick (a failed tick changes neither).
\<close>

theorem price_at_least_floor:
  "(tick cfg s rd = Inr s' \<longrightarrow> convertFloor rd (floorPrice cfg) \<le> currentPrice s')
   \<and> (run_ticks cfg (s, None) rds = (s'', Some fl) \<longrightarrow> fl \<le> currentPrice s'')"
  using tick_floor[of cfg s rd s']
    run_ticks_floor[where fl = None and s = s and cfg = cfg and rds = rds and s' = s''
      and f' = fl]
  by simp

theorem price_at_least_floor_witness:
  "tick fee_cfg0 fee_state0 reading_dear_floor = Inr \<lparr>startBlockNumber = 60, currentPrice = 2000\<rparr>
   \<and> convertFloor reading_dear_floor (floorPrice fee_cfg0) \<le> 2000
   \<and> run_ticks fee_cfg0 (fee_state0, None) [reading_busy, reading_dear_floor, reading_tx_fails]
       = (\<lparr>startBlockNumber = 60, currentPrice = 2000\<rparr>, Some 2000)"
proof -
  have a: "tick fee_cfg0 fee_state0 reading_dear_floor
             = Inr \<lparr>startBlockNumber = 60, currentPrice = 2000\<rparr>"
    by (simp add: tick_def appliedPercentChange_def loadRatio_def targetGasForWindow_def
        rawPercentChange_def clampPercentChange_def candidatePrice_def Let_def
        fee_cfg0_def fee_state0_def reading_dear_floor_def)
  have b: "run_ticks fee_cfg0 (fee_state0, None) [reading_busy, reading_dear_floor, reading_tx_fails]
       = (\<lparr>startBlockNumber = 60, currentPrice = 2000\<rparr>, Some 2000)"
    by (simp add: tick_def appliedPercentChange_def loadRatio_def targetGasForWindow_def
        rawPercentChange_def clampPercentChange_def candidatePrice_def Let_def
        fee_cfg0_def fee_state0_def reading_dear_floor_def reading_busy_def
        reading_tx_fails_def)
  from price_at_least_floor[where cfg = fee_cfg0 and s = fee_state0 and rd = reading_dear_floor
      and s' = "\<lparr>startBlockNumber = 60, currentPrice = 2000\<rparr>"
      and rds = "[reading_busy, reading_dear_floor, reading_tx_fails]"
      and s'' = "\<lparr>startBlockNumber = 60, currentPrice = 2000\<rparr>" and fl = 2000] a b
  show ?thesis by simp
qed

end
